theory Spec2Isabelle
  imports Main "HOL-Library.Word" "HOL-Library.Code_Target_Numeral"
begin

unbundle bit_operations_syntax

section \<open>The Lua boundary\<close>

text \<open>
  Every function of \<^verbatim>\<open>socket.c\<close> is a Lua C function: it reads its arguments from the
  Lua stack, pushes its results and returns their number, or leaves through
  \<^verbatim>\<open>luaL_argerror\<close> / \<^verbatim>\<open>luaL_checktype\<close>, which raise a Lua error and never return.
  The model gives a function its arguments already converted by \<^verbatim>\<open>luaL_checkinteger\<close> and
  \<^verbatim>\<open>luaL_checkstring\<close> (an \<open>int\<close> is a \<^verbatim>\<open>lua_Integer\<close>, a \<open>string\<close> is a Lua byte
  string), and returns the list of pushed values or the raised error. Where the C code
  narrows the integer (a port, a pid, a groups mask, a socket type, a buffer size, an
  option value) the model converts it to a word of that width, and an argument stored in
  an \<^verbatim>\<open>int\<close> (a descriptor, a domain, a protocol, a backlog, the flags of send and
  receive) goes through \<open>c_int\<close>.
\<close>

datatype lua_value =
    LNil
  | LBoolean bool
  | LInteger int
  | LString string
  | LTable "(string \<times> lua_value) list"

datatype lua_error =
    ArgError nat string \<comment> \<open>\<^verbatim>\<open>luaL_argerror(L, arg, msg)\<close>\<close>
  | TypeError nat string \<comment> \<open>\<^verbatim>\<open>luaL_checktype\<close> / \<^verbatim>\<open>luaL_checkinteger\<close> on a value of another type\<close>
  | OutOfBounds \<comment> \<open>a read past the end of a C buffer (undefined behaviour)\<close>

type_synonym lua_ret = "lua_error + lua_value list"

text \<open>\<^verbatim>\<open>lua_setfield(L, -2, k)\<close> on the table under construction.\<close>

fun lua_setfield :: "(string \<times> lua_value) list \<Rightarrow> string \<Rightarrow> lua_value \<Rightarrow> (string \<times> lua_value) list" where
  "lua_setfield [] k v = [(k, v)]"
| "lua_setfield ((k', v') # t) k v =
     (if k' = k then (k, v) # t else (k', v') # lua_setfield t k v)"

text \<open>
  An \<^verbatim>\<open>int\<close> initialised from a \<^verbatim>\<open>lua_Integer\<close> keeps the low 32 bits, read as a two's
  complement number.
\<close>

definition c_int :: "int \<Rightarrow> int" where
  "c_int n = sint (word_of_int n :: 32 word)"

section \<open>C strings\<close>

text \<open>
  \<^verbatim>\<open>luaL_checkstring\<close> hands out a \<^verbatim>\<open>const char *\<close>: \<^verbatim>\<open>strlen\<close>, \<^verbatim>\<open>strcmp\<close>, \<^verbatim>\<open>strcpy\<close> and
  \<^verbatim>\<open>%s\<close> see the bytes before the first NUL only.
\<close>

abbreviation NUL :: char where
  "NUL \<equiv> CHR 0x00"

definition c_str :: "string \<Rightarrow> string" where
  "c_str s = takeWhile (\<lambda>c. c \<noteq> NUL) s"

definition strlen :: "string \<Rightarrow> nat" where
  "strlen s = length (c_str s)"

text \<open>
  \<^verbatim>\<open>strcmp(a, b)\<close> is zero when the two C strings are equal; the model keeps whether it
  is non-zero, which is all the callers test.
\<close>

definition strcmp :: "string \<Rightarrow> string \<Rightarrow> bool" where
  "strcmp a b = (c_str a \<noteq> c_str b)"

text \<open>
  \<^verbatim>\<open>strcpy(dst, src)\<close> on a buffer \<open>dst\<close>: the bytes of the C string and its terminator
  replace the head of the buffer. The callers check that it fits; where it does not, the
  result is longer than the buffer.
\<close>

definition strcpy :: "string \<Rightarrow> string \<Rightarrow> string" where
  "strcpy dst src = c_str src @ NUL # drop (strlen src + 1) dst"

section \<open>System calls and their outcomes\<close>

text \<open>
  A system call either fails, setting \<^verbatim>\<open>errno\<close>, or returns a value. The numbers are
  those of Linux (the file includes \<^verbatim>\<open>linux/netlink.h\<close>).
\<close>

datatype 'a sysres = Failed int | Ok 'a

definition EINTR :: int where "EINTR = 4"
definition ENOMEM :: int where "ENOMEM = 12"
definition EPIPE :: int where "EPIPE = 32"
definition ECONNRESET :: int where "ECONNRESET = 104"
definition ECONNREFUSED :: int where "ECONNREFUSED = 111"
definition EINPROGRESS :: int where "EINPROGRESS = 115"

section \<open>Socket addresses\<close>

text \<open>
  The four address structures, field by field. \<^verbatim>\<open>sa_family_t\<close> and the port are 16 bits,
  \<^verbatim>\<open>in_addr\<close>, \<^verbatim>\<open>nl_pid\<close> and \<^verbatim>\<open>nl_groups\<close> 32 bits, \<^verbatim>\<open>in6_addr\<close> 128 bits;
  \<^verbatim>\<open>sun_path\<close> is a buffer of 108 bytes.
\<close>

record sockaddr_in =
  sin_family :: "16 word"
  sin_port :: "16 word"
  sin_addr :: "32 word"

record sockaddr_in6 =
  sin6_family :: "16 word"
  sin6_port :: "16 word"
  sin6_flowinfo :: "32 word"
  sin6_addr :: "128 word"
  sin6_scope_id :: "32 word"

record sockaddr_un =
  sun_family :: "16 word"
  sun_path :: string

record sockaddr_nl =
  nl_family :: "16 word"
  nl_pad :: "16 word"
  nl_pid :: "32 word"
  nl_groups :: "32 word"

text \<open>
  A \<^verbatim>\<open>struct sockaddr *\<close> points at storage holding one of the structures. The casts
  \<^verbatim>\<open>(struct sockaddr_nl *)addr\<close> and its like are the selectors: on storage that holds
  another structure a selector's value is not specified, as the reinterpreted bytes are not.
\<close>

datatype sockaddr =
    SA_in (as_sockaddr_in: sockaddr_in)
  | SA_in6 (as_sockaddr_in6: sockaddr_in6)
  | SA_un (as_sockaddr_un: sockaddr_un)
  | SA_nl (as_sockaddr_nl: sockaddr_nl)
  | SA_generic "16 word" \<comment> \<open>any other family: only \<^verbatim>\<open>sa_family\<close> is known\<close>

fun sa_family :: "sockaddr \<Rightarrow> 16 word" where
  "sa_family (SA_in a) = sin_family a"
| "sa_family (SA_in6 a) = sin6_family a"
| "sa_family (SA_un a) = sun_family a"
| "sa_family (SA_nl a) = nl_family a"
| "sa_family (SA_generic f) = f"

definition AF_UNSPEC :: "16 word" where "AF_UNSPEC = 0"
definition AF_UNIX :: "16 word" where "AF_UNIX = 1"
definition AF_INET :: "16 word" where "AF_INET = 2"
definition AF_INET6 :: "16 word" where "AF_INET6 = 10"
definition AF_NETLINK :: "16 word" where "AF_NETLINK = 16"

definition sizeof_sockaddr_in :: "32 word" where "sizeof_sockaddr_in = 16"
definition sizeof_sockaddr_in6 :: "32 word" where "sizeof_sockaddr_in6 = 28"
definition sizeof_sockaddr_nl :: "32 word" where "sizeof_sockaddr_nl = 12"
definition sizeof_sun_path :: nat where "sizeof_sun_path = 108"

text \<open>\<^verbatim>\<open>htons\<close> and \<^verbatim>\<open>ntohs\<close> on a little-endian host: the two bytes change places.\<close>

definition htons :: "16 word \<Rightarrow> 16 word" where
  "htons x = push_bit 8 x OR drop_bit 8 x"

definition ntohs :: "16 word \<Rightarrow> 16 word" where
  "ntohs x = push_bit 8 x OR drop_bit 8 x"

text \<open>
  \<^verbatim>\<open>SUN_LEN(ptr)\<close> is \<^verbatim>\<open>offsetof(struct sockaddr_un, sun_path) + strlen(ptr->sun_path)\<close>,
  and the offset is the size of \<^verbatim>\<open>sun_family\<close>, 2.
\<close>

definition SUN_LEN :: "sockaddr_un \<Rightarrow> 32 word" where
  "SUN_LEN addr = of_nat (2 + strlen (sun_path addr))"

text \<open>\<^verbatim>\<open>luaL_optinteger(L, arg, def)\<close>: the default for an absent argument.\<close>

definition luaL_optinteger :: "int option \<Rightarrow> int \<Rightarrow> int" where
  "luaL_optinteger arg def = (case arg of None \<Rightarrow> def | Some n \<Rightarrow> n)"

text \<open>
  \<^verbatim>\<open>push_socket_addr\<close> builds the Lua table of an address. \<^verbatim>\<open>inet_ntop\<close> is the C
  library's and is a parameter, one for each family. The netlink branch is followed by a
  fresh \<^verbatim>\<open>if\<close>, not by \<^verbatim>\<open>else if\<close>, as in the source. The UNIX branch reads
  \<^verbatim>\<open>len - 2\<close> bytes of \<^verbatim>\<open>sun_path\<close>, an unsigned subtraction.
\<close>

definition push_socket_addr ::
  "(32 word \<Rightarrow> string) \<Rightarrow> (128 word \<Rightarrow> string) \<Rightarrow> sockaddr \<Rightarrow> 32 word \<Rightarrow> lua_error + lua_value" where
  "push_socket_addr inet_ntop4 inet_ntop6 addr len =
     (let family = sa_family addr;
          t = lua_setfield [] ''family'' (LInteger (uint family));
          t = (if family = AF_NETLINK
               then lua_setfield t ''pid'' (LInteger (uint (nl_pid (as_sockaddr_nl addr))))
               else t)
      in if family = AF_UNIX then
           (let un = as_sockaddr_un addr; n = unat (len - 2)
            in if n \<le> length (sun_path un)
               then Inr (LTable (lua_setfield t ''path'' (LString (take n (sun_path un)))))
               else Inl OutOfBounds)
         else if family = AF_INET then
           (let sin = as_sockaddr_in addr;
                t = lua_setfield t ''port'' (LInteger (uint (ntohs (sin_port sin))));
                t = lua_setfield t ''ipaddr'' (LString (inet_ntop4 (sin_addr sin)))
            in Inr (LTable t))
         else if family = AF_INET6 then
           (let sin6 = as_sockaddr_in6 addr;
                t = lua_setfield t ''port'' (LInteger (uint (ntohs (sin6_port sin6))));
                t = lua_setfield t ''ipaddr'' (LString (inet_ntop6 (sin6_addr sin6)))
            in Inr (LTable t))
         else Inr (LTable t))"

section \<open>The system calls issued\<close>

text \<open>
  Each function returns, with its Lua result, the system calls it issued, in order, with
  the arguments that matter here. A buffer handed to the kernel is recorded by its size.
\<close>

datatype optval =
    Val_int "32 word" \<comment> \<open>an \<^verbatim>\<open>int\<close>\<close>
  | Val_ifreq string \<comment> \<open>a \<^verbatim>\<open>struct ifreq\<close>, by its \<^verbatim>\<open>ifr_name\<close>\<close>

datatype syscall =
    SYS_socket int "32 word" int \<comment> \<open>domain, type, protocol\<close>
  | SYS_bind int sockaddr "32 word"
  | SYS_listen int int
  | SYS_accept4 int "32 word" \<comment> \<open>descriptor, flags\<close>
  | SYS_connect int sockaddr "32 word"
  | SYS_send int string int \<comment> \<open>descriptor, data, flags\<close>
  | SYS_recv int nat int \<comment> \<open>descriptor, buffer size, flags\<close>
  | SYS_sendto int string int sockaddr "32 word"
  | SYS_recvfrom int nat int
  | SYS_getsockname int
  | SYS_getpeername int
  | SYS_getsockopt int int int \<comment> \<open>descriptor, level, option\<close>
  | SYS_setsockopt int int int optval \<comment> \<open>descriptor, level, option, value\<close>

definition SOCK_NONBLOCK :: "32 word" where "SOCK_NONBLOCK = 0x800"
definition SOCK_CLOEXEC :: "32 word" where "SOCK_CLOEXEC = 0x80000"
definition SOMAXCONN :: int where "SOMAXCONN = 4096"

section \<open>Creating, binding, listening, connecting\<close>

definition eco_socket_socket :: "int sysres \<Rightarrow> int \<Rightarrow> int \<Rightarrow> int \<Rightarrow> syscall list \<times> lua_ret" where
  "eco_socket_socket r domain type protocol =
     ([SYS_socket (c_int domain) (word_of_int type OR SOCK_NONBLOCK OR SOCK_CLOEXEC) (c_int protocol)],
      case r of
        Failed errno \<Rightarrow> Inr [LNil, LInteger errno]
      | Ok fd \<Rightarrow> Inr [LInteger fd])"

definition eco_socket_bind_common ::
  "unit sysres \<Rightarrow> int \<Rightarrow> sockaddr \<Rightarrow> 32 word \<Rightarrow> syscall list \<times> lua_ret" where
  "eco_socket_bind_common r fd addr addrlen =
     ([SYS_bind fd addr addrlen],
      case r of
        Failed errno \<Rightarrow> Inr [LBoolean False, LInteger errno]
      | Ok _ \<Rightarrow> Inr [LBoolean True])"

text \<open>
  \<^verbatim>\<open>inet_pton\<close> is the C library's: \<open>None\<close> when its result is not 1. In \<^verbatim>\<open>bind\<close>
  and \<^verbatim>\<open>bind6\<close> the address comes from \<^verbatim>\<open>lua_tostring\<close> and may be absent; the
  structure's address then stays zero.
\<close>

definition eco_socket_bind ::
  "(string \<Rightarrow> 32 word option) \<Rightarrow> unit sysres \<Rightarrow> int \<Rightarrow> string option \<Rightarrow> int \<Rightarrow> syscall list \<times> lua_ret" where
  "eco_socket_bind inet_pton4 r fd ip port =
     (let addr = \<lparr>sin_family = AF_INET, sin_port = htons (word_of_int port), sin_addr = 0\<rparr>
      in case ip of
           None \<Rightarrow> eco_socket_bind_common r (c_int fd) (SA_in addr) sizeof_sockaddr_in
         | Some s \<Rightarrow>
             (case inet_pton4 (c_str s) of
                None \<Rightarrow> ([], Inl (ArgError 2 ''not a valid IPv4 address''))
              | Some a \<Rightarrow>
                  eco_socket_bind_common r (c_int fd) (SA_in (addr\<lparr>sin_addr := a\<rparr>)) sizeof_sockaddr_in))"

definition eco_socket_bind6 ::
  "(string \<Rightarrow> 128 word option) \<Rightarrow> unit sysres \<Rightarrow> int \<Rightarrow> string option \<Rightarrow> int \<Rightarrow> syscall list \<times> lua_ret" where
  "eco_socket_bind6 inet_pton6 r fd ip port =
     (let addr = \<lparr>sin6_family = AF_INET6, sin6_port = htons (word_of_int port),
                  sin6_flowinfo = 0, sin6_addr = 0, sin6_scope_id = 0\<rparr>
      in case ip of
           None \<Rightarrow> eco_socket_bind_common r (c_int fd) (SA_in6 addr) sizeof_sockaddr_in6
         | Some s \<Rightarrow>
             (case inet_pton6 (c_str s) of
                None \<Rightarrow> ([], Inl (ArgError 2 ''not a valid IPv6 address''))
              | Some a \<Rightarrow>
                  eco_socket_bind_common r (c_int fd) (SA_in6 (addr\<lparr>sin6_addr := a\<rparr>)) sizeof_sockaddr_in6))"

definition eco_socket_bind_unix :: "unit sysres \<Rightarrow> int \<Rightarrow> string \<Rightarrow> syscall list \<times> lua_ret" where
  "eco_socket_bind_unix r fd path =
     (let addr = \<lparr>sun_family = AF_UNIX, sun_path = replicate sizeof_sun_path NUL\<rparr>
      in if strlen path \<ge> sizeof_sun_path
         then ([], Inl (ArgError 2 ''path too long''))
         else (let addr = addr\<lparr>sun_path := strcpy (sun_path addr) path\<rparr>
               in eco_socket_bind_common r (c_int fd) (SA_un addr) (SUN_LEN addr)))"

definition eco_socket_bind_nl ::
  "unit sysres \<Rightarrow> int \<Rightarrow> int option \<Rightarrow> int option \<Rightarrow> syscall list \<times> lua_ret" where
  "eco_socket_bind_nl r fd groups pid =
     (let addr = \<lparr>nl_family = AF_NETLINK, nl_pad = 0,
                  nl_pid = word_of_int (luaL_optinteger pid 0),
                  nl_groups = word_of_int (luaL_optinteger groups 0)\<rparr>
      in eco_socket_bind_common r (c_int fd) (SA_nl addr) sizeof_sockaddr_nl)"

definition eco_socket_listen :: "unit sysres \<Rightarrow> int \<Rightarrow> int option \<Rightarrow> syscall list \<times> lua_ret" where
  "eco_socket_listen r fd backlog =
     ([SYS_listen (c_int fd) (c_int (luaL_optinteger backlog SOMAXCONN))],
      case r of
        Failed errno \<Rightarrow> Inr [LBoolean False, LInteger errno]
      | Ok _ \<Rightarrow> Inr [LBoolean True])"

definition eco_socket_connect_common ::
  "unit sysres \<Rightarrow> int \<Rightarrow> sockaddr \<Rightarrow> 32 word \<Rightarrow> syscall list \<times> lua_ret" where
  "eco_socket_connect_common r fd addr addrlen =
     ([SYS_connect fd addr addrlen],
      case r of
        Failed errno \<Rightarrow> Inr [LBoolean False, LInteger errno]
      | Ok _ \<Rightarrow> Inr [LBoolean True])"

definition eco_socket_connect ::
  "(string \<Rightarrow> 32 word option) \<Rightarrow> unit sysres \<Rightarrow> int \<Rightarrow> string \<Rightarrow> int \<Rightarrow> syscall list \<times> lua_ret" where
  "eco_socket_connect inet_pton4 r fd ip port =
     (let addr = \<lparr>sin_family = AF_INET, sin_port = htons (word_of_int port), sin_addr = 0\<rparr>
      in case inet_pton4 (c_str ip) of
           None \<Rightarrow> ([], Inl (ArgError 2 ''not a valid IPv4 address''))
         | Some a \<Rightarrow>
             eco_socket_connect_common r (c_int fd) (SA_in (addr\<lparr>sin_addr := a\<rparr>)) sizeof_sockaddr_in)"

definition eco_socket_connect6 ::
  "(string \<Rightarrow> 128 word option) \<Rightarrow> unit sysres \<Rightarrow> int \<Rightarrow> string \<Rightarrow> int \<Rightarrow> syscall list \<times> lua_ret" where
  "eco_socket_connect6 inet_pton6 r fd ip port =
     (let addr = \<lparr>sin6_family = AF_INET6, sin6_port = htons (word_of_int port),
                  sin6_flowinfo = 0, sin6_addr = 0, sin6_scope_id = 0\<rparr>
      in case inet_pton6 (c_str ip) of
           None \<Rightarrow> ([], Inl (ArgError 2 ''not a valid IPv6 address''))
         | Some a \<Rightarrow>
             eco_socket_connect_common r (c_int fd) (SA_in6 (addr\<lparr>sin6_addr := a\<rparr>)) sizeof_sockaddr_in6)"

definition eco_socket_connect_unix :: "unit sysres \<Rightarrow> int \<Rightarrow> string \<Rightarrow> syscall list \<times> lua_ret" where
  "eco_socket_connect_unix r fd path =
     (let addr = \<lparr>sun_family = AF_UNIX, sun_path = replicate sizeof_sun_path NUL\<rparr>
      in if strlen path \<ge> sizeof_sun_path
         then ([], Inl (ArgError 2 ''path too long''))
         else (let addr = addr\<lparr>sun_path := strcpy (sun_path addr) path\<rparr>
               in eco_socket_connect_common r (c_int fd) (SA_un addr) (SUN_LEN addr)))"

definition eco_socket_connect_nl :: "unit sysres \<Rightarrow> int \<Rightarrow> int \<Rightarrow> syscall list \<times> lua_ret" where
  "eco_socket_connect_nl r fd pid =
     (let addr = \<lparr>nl_family = AF_NETLINK, nl_pad = 0, nl_pid = word_of_int pid, nl_groups = 0\<rparr>
      in eco_socket_connect_common r (c_int fd) (SA_nl addr) sizeof_sockaddr_nl)"

section \<open>Accepting, sending, receiving\<close>

text \<open>
  The functions below loop with \<^verbatim>\<open>goto again\<close> while the call fails with \<^verbatim>\<open>EINTR\<close>.
  The kernel's answers are a parameter \<open>env\<close>: \<open>env k\<close> answers the call issued after
  \<open>k\<close> earlier ones. The code from the label \<^verbatim>\<open>again:\<close> on is a partial function of the
  calls issued so far; \<open>None\<close> is a loop that never leaves. An answer \<open>Ok v\<close> holds
  the value that the C variable assigned from the call receives. \<^verbatim>\<open>strerror\<close> is the C
  library's and is a parameter.
\<close>

partial_function (option) eco_socket_accept_again ::
  "(32 word \<Rightarrow> string) \<Rightarrow> (128 word \<Rightarrow> string) \<Rightarrow> (nat \<Rightarrow> (int \<times> sockaddr \<times> 32 word) sysres) \<Rightarrow>
   int \<Rightarrow> syscall list \<Rightarrow> (syscall list \<times> lua_ret) option" where
  "eco_socket_accept_again inet_ntop4 inet_ntop6 env lfd tr =
     (case env (length tr) of
        Failed errno \<Rightarrow>
          if errno = EINTR
          then eco_socket_accept_again inet_ntop4 inet_ntop6 env lfd
                 (tr @ [SYS_accept4 lfd (SOCK_NONBLOCK OR SOCK_CLOEXEC)])
          else Some (tr @ [SYS_accept4 lfd (SOCK_NONBLOCK OR SOCK_CLOEXEC)],
                     Inr [LNil, LInteger errno])
      | Ok (fd, addr, addrlen) \<Rightarrow>
          Some (tr @ [SYS_accept4 lfd (SOCK_NONBLOCK OR SOCK_CLOEXEC)],
                case push_socket_addr inet_ntop4 inet_ntop6 addr addrlen of
                  Inl e \<Rightarrow> Inl e
                | Inr t \<Rightarrow> Inr [LInteger fd, t]))"

declare eco_socket_accept_again.simps [code]

definition eco_socket_accept ::
  "(32 word \<Rightarrow> string) \<Rightarrow> (128 word \<Rightarrow> string) \<Rightarrow> (nat \<Rightarrow> (int \<times> sockaddr \<times> 32 word) sysres) \<Rightarrow>
   int \<Rightarrow> (syscall list \<times> lua_ret) option" where
  "eco_socket_accept inet_ntop4 inet_ntop6 env lfd =
     eco_socket_accept_again inet_ntop4 inet_ntop6 env (c_int lfd) []"

partial_function (option) eco_socket_send_again ::
  "(int \<Rightarrow> string) \<Rightarrow> (nat \<Rightarrow> int sysres) \<Rightarrow> int \<Rightarrow> string \<Rightarrow> int \<Rightarrow> syscall list \<Rightarrow>
   (syscall list \<times> lua_ret) option" where
  "eco_socket_send_again strerror env fd data flags tr =
     (case env (length tr) of
        Failed errno \<Rightarrow>
          if errno = EINTR
          then eco_socket_send_again strerror env fd data flags (tr @ [SYS_send fd data flags])
          else Some (tr @ [SYS_send fd data flags],
                     Inr [LNil, if errno = EPIPE then LString ''closed''
                                else LString (strerror errno)])
      | Ok ret \<Rightarrow> Some (tr @ [SYS_send fd data flags], Inr [LInteger ret]))"

declare eco_socket_send_again.simps [code]

definition eco_socket_send ::
  "(int \<Rightarrow> string) \<Rightarrow> (nat \<Rightarrow> int sysres) \<Rightarrow> int \<Rightarrow> string \<Rightarrow> int option \<Rightarrow>
   (syscall list \<times> lua_ret) option" where
  "eco_socket_send strerror env fd data flags =
     eco_socket_send_again strerror env (c_int fd) data (c_int (luaL_optinteger flags 0)) []"

text \<open>
  \<^verbatim>\<open>recv\<close> answers with the number of bytes and leaves them in the buffer: \<open>Ok (ret, buf)\<close>
  is the return value and the buffer's contents after the call. \<^verbatim>\<open>lua_pushlstring(L, buf, ret)\<close>
  reads \<open>ret\<close> bytes of it; a \<open>ret\<close> beyond the \<open>n\<close> bytes allocated (the kernel
  reports the full length of a datagram under \<^verbatim>\<open>MSG_TRUNC\<close>) is a read past the buffer.
  \<^verbatim>\<open>malloc\<close> succeeds or not, by the parameter \<open>malloc_ok\<close>, and leaves \<^verbatim>\<open>ENOMEM\<close> in
  \<^verbatim>\<open>errno\<close> when it does not; the size is a \<^verbatim>\<open>size_t\<close>, 64 bits. The flags are the
  caller's; \<^verbatim>\<open>MSG_TRUNC\<close> is one of the constants the module exports.
\<close>

definition MSG_TRUNC :: int where "MSG_TRUNC = 0x20"

partial_function (option) eco_socket_recv_again ::
  "(int \<Rightarrow> string) \<Rightarrow> (nat \<Rightarrow> (nat \<times> string) sysres) \<Rightarrow> int \<Rightarrow> nat \<Rightarrow> int \<Rightarrow> syscall list \<Rightarrow>
   (syscall list \<times> lua_ret) option" where
  "eco_socket_recv_again strerror env fd n flags tr =
     (case env (length tr) of
        Failed errno \<Rightarrow>
          if errno = EINTR
          then eco_socket_recv_again strerror env fd n flags (tr @ [SYS_recv fd n flags])
          else Some (tr @ [SYS_recv fd n flags], Inr [LNil, LString (strerror errno)])
      | Ok (ret, buf) \<Rightarrow>
          Some (tr @ [SYS_recv fd n flags],
                if ret \<le> n then Inr [LString (take ret buf)] else Inl OutOfBounds))"

declare eco_socket_recv_again.simps [code]

definition eco_socket_recv ::
  "(int \<Rightarrow> string) \<Rightarrow> (nat \<Rightarrow> bool) \<Rightarrow> (nat \<Rightarrow> (nat \<times> string) sysres) \<Rightarrow> int \<Rightarrow> int \<Rightarrow> int option \<Rightarrow>
   (syscall list \<times> lua_ret) option" where
  "eco_socket_recv strerror malloc_ok env fd max_length flags =
     (let n = (word_of_int max_length :: 64 word)
      in if n < 1 then Some ([], Inl (ArgError 2 ''must be greater than 0''))
         else if \<not> malloc_ok (unat n) then Some ([], Inr [LNil, LString (strerror ENOMEM)])
         else eco_socket_recv_again strerror env (c_int fd) (unat n) (c_int (luaL_optinteger flags 0)) [])"

partial_function (option) eco_socket_sendto_common ::
  "(int \<Rightarrow> string) \<Rightarrow> (nat \<Rightarrow> int sysres) \<Rightarrow> int \<Rightarrow> string \<Rightarrow> sockaddr \<Rightarrow> 32 word \<Rightarrow> int \<Rightarrow>
   syscall list \<Rightarrow> (syscall list \<times> lua_ret) option" where
  "eco_socket_sendto_common strerror env fd data addr addrlen flags tr =
     (case env (length tr) of
        Failed errno \<Rightarrow>
          if errno = EINTR
          then eco_socket_sendto_common strerror env fd data addr addrlen flags
                 (tr @ [SYS_sendto fd data flags addr addrlen])
          else Some (tr @ [SYS_sendto fd data flags addr addrlen],
                     Inr [LNil, LString (strerror errno)])
      | Ok ret \<Rightarrow> Some (tr @ [SYS_sendto fd data flags addr addrlen], Inr [LInteger ret]))"

declare eco_socket_sendto_common.simps [code]

definition eco_socket_sendto ::
  "(string \<Rightarrow> 32 word option) \<Rightarrow> (int \<Rightarrow> string) \<Rightarrow> (nat \<Rightarrow> int sysres) \<Rightarrow> int \<Rightarrow> string \<Rightarrow> string \<Rightarrow>
   int \<Rightarrow> int option \<Rightarrow> (syscall list \<times> lua_ret) option" where
  "eco_socket_sendto inet_pton4 strerror env fd data ip port flags =
     (let addr = \<lparr>sin_family = AF_INET, sin_port = htons (word_of_int port), sin_addr = 0\<rparr>
      in case inet_pton4 (c_str ip) of
           None \<Rightarrow> Some ([], Inl (ArgError 2 ''not a valid IPv4 address''))
         | Some a \<Rightarrow>
             eco_socket_sendto_common strerror env (c_int fd) data (SA_in (addr\<lparr>sin_addr := a\<rparr>))
               sizeof_sockaddr_in (c_int (luaL_optinteger flags 0)) [])"

definition eco_socket_sendto6 ::
  "(string \<Rightarrow> 128 word option) \<Rightarrow> (int \<Rightarrow> string) \<Rightarrow> (nat \<Rightarrow> int sysres) \<Rightarrow> int \<Rightarrow> string \<Rightarrow> string \<Rightarrow>
   int \<Rightarrow> int option \<Rightarrow> (syscall list \<times> lua_ret) option" where
  "eco_socket_sendto6 inet_pton6 strerror env fd data ip port flags =
     (let addr = \<lparr>sin6_family = AF_INET6, sin6_port = htons (word_of_int port),
                  sin6_flowinfo = 0, sin6_addr = 0, sin6_scope_id = 0\<rparr>
      in case inet_pton6 (c_str ip) of
           None \<Rightarrow> Some ([], Inl (ArgError 2 ''not a valid IPv6 address''))
         | Some a \<Rightarrow>
             eco_socket_sendto_common strerror env (c_int fd) data (SA_in6 (addr\<lparr>sin6_addr := a\<rparr>))
               sizeof_sockaddr_in6 (c_int (luaL_optinteger flags 0)) [])"

text \<open>
  \<^verbatim>\<open>sendto_unix\<close> measures the path by its Lua length and copies it with \<^verbatim>\<open>memcpy\<close>;
  its argument error names argument 2, as the source does.
\<close>

definition eco_socket_sendto_unix ::
  "(int \<Rightarrow> string) \<Rightarrow> (nat \<Rightarrow> int sysres) \<Rightarrow> int \<Rightarrow> string \<Rightarrow> string \<Rightarrow> int option \<Rightarrow>
   (syscall list \<times> lua_ret) option" where
  "eco_socket_sendto_unix strerror env fd data path flags =
     (let addr = \<lparr>sun_family = AF_UNIX, sun_path = replicate sizeof_sun_path NUL\<rparr>;
          pathlen = length path
      in if pathlen \<ge> sizeof_sun_path
         then Some ([], Inl (ArgError 2 ''path too long''))
         else (let addr = addr\<lparr>sun_path := path @ drop pathlen (sun_path addr)\<rparr>
               in eco_socket_sendto_common strerror env (c_int fd) data (SA_un addr) (SUN_LEN addr)
                    (c_int (luaL_optinteger flags 0)) []))"

definition eco_socket_sendto_nl ::
  "(int \<Rightarrow> string) \<Rightarrow> (nat \<Rightarrow> int sysres) \<Rightarrow> int \<Rightarrow> string \<Rightarrow> int option \<Rightarrow> int option \<Rightarrow>
   (syscall list \<times> lua_ret) option" where
  "eco_socket_sendto_nl strerror env fd data pid flags =
     (let addr = \<lparr>nl_family = AF_NETLINK, nl_pad = 0,
                  nl_pid = word_of_int (luaL_optinteger pid 0), nl_groups = 0\<rparr>
      in eco_socket_sendto_common strerror env (c_int fd) data (SA_nl addr) sizeof_sockaddr_nl
           (c_int (luaL_optinteger flags 0)) [])"

text \<open>
  \<^verbatim>\<open>recvfrom\<close> answers with the byte count, the buffer, the source address and its
  length; the address is pushed only when the length is not zero.
\<close>

partial_function (option) eco_socket_recvfrom_again ::
  "(int \<Rightarrow> string) \<Rightarrow> (32 word \<Rightarrow> string) \<Rightarrow> (128 word \<Rightarrow> string) \<Rightarrow>
   (nat \<Rightarrow> (nat \<times> string \<times> sockaddr \<times> 32 word) sysres) \<Rightarrow> int \<Rightarrow> nat \<Rightarrow> int \<Rightarrow> syscall list \<Rightarrow>
   (syscall list \<times> lua_ret) option" where
  "eco_socket_recvfrom_again strerror inet_ntop4 inet_ntop6 env fd n flags tr =
     (case env (length tr) of
        Failed errno \<Rightarrow>
          if errno = EINTR
          then eco_socket_recvfrom_again strerror inet_ntop4 inet_ntop6 env fd n flags
                 (tr @ [SYS_recvfrom fd n flags])
          else Some (tr @ [SYS_recvfrom fd n flags], Inr [LNil, LString (strerror errno)])
      | Ok (ret, buf, addr, addrlen) \<Rightarrow>
          Some (tr @ [SYS_recvfrom fd n flags],
                if ret \<le> n then
                  (if addrlen \<noteq> 0 then
                     (case push_socket_addr inet_ntop4 inet_ntop6 addr addrlen of
                        Inl e \<Rightarrow> Inl e
                      | Inr t \<Rightarrow> Inr [LString (take ret buf), t])
                   else Inr [LString (take ret buf)])
                else Inl OutOfBounds))"

declare eco_socket_recvfrom_again.simps [code]

definition eco_socket_recvfrom ::
  "(int \<Rightarrow> string) \<Rightarrow> (32 word \<Rightarrow> string) \<Rightarrow> (128 word \<Rightarrow> string) \<Rightarrow> (nat \<Rightarrow> bool) \<Rightarrow>
   (nat \<Rightarrow> (nat \<times> string \<times> sockaddr \<times> 32 word) sysres) \<Rightarrow> int \<Rightarrow> int \<Rightarrow> int option \<Rightarrow>
   (syscall list \<times> lua_ret) option" where
  "eco_socket_recvfrom strerror inet_ntop4 inet_ntop6 malloc_ok env fd max_length flags =
     (let n = (word_of_int max_length :: 64 word)
      in if n < 1 then Some ([], Inl (ArgError 2 ''must be greater than 0''))
         else if \<not> malloc_ok (unat n) then Some ([], Inr [LNil, LString (strerror ENOMEM)])
         else eco_socket_recvfrom_again strerror inet_ntop4 inet_ntop6 env (c_int fd) (unat n)
                (c_int (luaL_optinteger flags 0)) [])"

definition eco_socket_getsockname ::
  "(int \<Rightarrow> string) \<Rightarrow> (32 word \<Rightarrow> string) \<Rightarrow> (128 word \<Rightarrow> string) \<Rightarrow> (sockaddr \<times> 32 word) sysres \<Rightarrow>
   int \<Rightarrow> syscall list \<times> lua_ret" where
  "eco_socket_getsockname strerror inet_ntop4 inet_ntop6 r fd =
     ([SYS_getsockname (c_int fd)],
      case r of
        Failed errno \<Rightarrow> Inr [LNil, LString (strerror errno)]
      | Ok (addr, addrlen) \<Rightarrow>
          (case push_socket_addr inet_ntop4 inet_ntop6 addr addrlen of
             Inl e \<Rightarrow> Inl e
           | Inr t \<Rightarrow> Inr [t]))"

definition eco_socket_getpeername ::
  "(int \<Rightarrow> string) \<Rightarrow> (32 word \<Rightarrow> string) \<Rightarrow> (128 word \<Rightarrow> string) \<Rightarrow> (sockaddr \<times> 32 word) sysres \<Rightarrow>
   int \<Rightarrow> syscall list \<times> lua_ret" where
  "eco_socket_getpeername strerror inet_ntop4 inet_ntop6 r fd =
     ([SYS_getpeername (c_int fd)],
      case r of
        Failed errno \<Rightarrow> Inr [LNil, LString (strerror errno)]
      | Ok (addr, addrlen) \<Rightarrow>
          (case push_socket_addr inet_ntop4 inet_ntop6 addr addrlen of
             Inl e \<Rightarrow> Inl e
           | Inr t \<Rightarrow> Inr [t]))"

section \<open>Socket options\<close>

definition SOL_SOCKET :: int where "SOL_SOCKET = 1"
definition SO_REUSEADDR :: int where "SO_REUSEADDR = 2"
definition SO_ERROR :: int where "SO_ERROR = 4"
definition SO_KEEPALIVE :: int where "SO_KEEPALIVE = 9"
definition SO_REUSEPORT :: int where "SO_REUSEPORT = 15"
definition SO_BINDTODEVICE :: int where "SO_BINDTODEVICE = 25"
definition SOL_TCP :: int where "SOL_TCP = 6"
definition IPPROTO_TCP :: int where "IPPROTO_TCP = 6"
definition TCP_NODELAY :: int where "TCP_NODELAY = 1"
definition TCP_KEEPIDLE :: int where "TCP_KEEPIDLE = 4"
definition TCP_KEEPINTVL :: int where "TCP_KEEPINTVL = 5"
definition TCP_KEEPCNT :: int where "TCP_KEEPCNT = 6"
definition TCP_FASTOPEN :: int where "TCP_FASTOPEN = 23"
definition IPPROTO_IPV6 :: int where "IPPROTO_IPV6 = 41"
definition IPV6_V6ONLY :: int where "IPV6_V6ONLY = 26"
definition SOL_NETLINK :: int where "SOL_NETLINK = 270"
definition NETLINK_ADD_MEMBERSHIP :: int where "NETLINK_ADD_MEMBERSHIP = 1"
definition NETLINK_DROP_MEMBERSHIP :: int where "NETLINK_DROP_MEMBERSHIP = 2"
definition IFNAMSIZ :: nat where "IFNAMSIZ = 16"

text \<open>
  A getter runs \<^verbatim>\<open>getsockopt\<close> once; \<open>r\<close> is its outcome, the option's value on success.
\<close>

definition opt_getboolean ::
  "(int \<Rightarrow> string) \<Rightarrow> int sysres \<Rightarrow> int \<Rightarrow> int \<Rightarrow> int \<Rightarrow> syscall list \<times> lua_ret" where
  "opt_getboolean strerror r fd level name =
     ([SYS_getsockopt fd level name],
      case r of
        Failed errno \<Rightarrow> Inr [LNil, LString (strerror errno)]
      | Ok val \<Rightarrow> Inr [LBoolean (val \<noteq> 0)])"

definition opt_get_reuseaddr :: "(int \<Rightarrow> string) \<Rightarrow> int sysres \<Rightarrow> int \<Rightarrow> syscall list \<times> lua_ret" where
  "opt_get_reuseaddr strerror r fd = opt_getboolean strerror r fd SOL_SOCKET SO_REUSEADDR"

definition opt_get_error :: "(int \<Rightarrow> string) \<Rightarrow> int sysres \<Rightarrow> int \<Rightarrow> syscall list \<times> lua_ret" where
  "opt_get_error strerror r fd =
     ([SYS_getsockopt fd SOL_SOCKET SO_ERROR],
      case r of
        Failed errno \<Rightarrow> Inr [LInteger errno]
      | Ok val \<Rightarrow> Inr [LInteger val])"

definition optget :: "(string \<times> ((int \<Rightarrow> string) \<Rightarrow> int sysres \<Rightarrow> int \<Rightarrow> syscall list \<times> lua_ret)) list" where
  "optget = [(''reuseaddr'', opt_get_reuseaddr), (''error'', opt_get_error)]"

text \<open>
  The scan \<^verbatim>\<open>while (o->name && strcmp(name, o->name)) o++\<close>: the end of the list is the
  \<^verbatim>\<open>{NULL, NULL}\<close> entry, whose \<^verbatim>\<open>func\<close> is \<^verbatim>\<open>NULL\<close>.
\<close>

fun sock_opt_scan :: "(string \<times> 'h) list \<Rightarrow> string \<Rightarrow> 'h option" where
  "sock_opt_scan [] name = None"
| "sock_opt_scan ((oname, func) # os) name =
     (if strcmp name oname then sock_opt_scan os name else Some func)"

text \<open>\<^verbatim>\<open>sprintf(msg, "unsupported option '%.35s'", name)\<close>.\<close>

definition unsupported_option_msg :: "string \<Rightarrow> string" where
  "unsupported_option_msg name =
     ''unsupported option '' @ CHR 0x27 # take 35 (c_str name) @ [CHR 0x27]"

definition eco_socket_getoption ::
  "(int \<Rightarrow> string) \<Rightarrow> int sysres \<Rightarrow> int \<Rightarrow> string \<Rightarrow> syscall list \<times> lua_ret" where
  "eco_socket_getoption strerror r fd name =
     (case sock_opt_scan optget name of
        None \<Rightarrow> ([], Inl (ArgError 2 (unsupported_option_msg name)))
      | Some func \<Rightarrow> func strerror r (c_int fd))"

text \<open>
  A setter reads the third argument, the value, as a Lua value (after the coercions of the
  Lua API), and runs \<^verbatim>\<open>setsockopt\<close> once; \<open>r\<close> is its outcome.
\<close>

definition opt_set ::
  "(int \<Rightarrow> string) \<Rightarrow> unit sysres \<Rightarrow> int \<Rightarrow> int \<Rightarrow> int \<Rightarrow> optval \<Rightarrow> syscall list \<times> lua_ret" where
  "opt_set strerror r fd level name val =
     ([SYS_setsockopt fd level name val],
      case r of
        Failed errno \<Rightarrow> Inr [LBoolean False, LString (strerror errno)]
      | Ok _ \<Rightarrow> Inr [LBoolean True])"

definition opt_setboolean ::
  "(int \<Rightarrow> string) \<Rightarrow> unit sysres \<Rightarrow> int \<Rightarrow> lua_value \<Rightarrow> int \<Rightarrow> int \<Rightarrow> syscall list \<times> lua_ret" where
  "opt_setboolean strerror r fd arg3 level name =
     (case arg3 of
        LBoolean b \<Rightarrow> opt_set strerror r fd level name (Val_int (if b then 1 else 0))
      | _ \<Rightarrow> ([], Inl (TypeError 3 ''boolean expected'')))"

definition opt_setint ::
  "(int \<Rightarrow> string) \<Rightarrow> unit sysres \<Rightarrow> int \<Rightarrow> lua_value \<Rightarrow> int \<Rightarrow> int \<Rightarrow> syscall list \<times> lua_ret" where
  "opt_setint strerror r fd arg3 level name =
     (case arg3 of
        LInteger val \<Rightarrow> opt_set strerror r fd level name (Val_int (word_of_int val))
      | _ \<Rightarrow> ([], Inl (TypeError 3 ''number expected'')))"

type_synonym opt_setter = "(int \<Rightarrow> string) \<Rightarrow> unit sysres \<Rightarrow> int \<Rightarrow> lua_value \<Rightarrow> syscall list \<times> lua_ret"

definition opt_set_reuseaddr :: opt_setter where
  "opt_set_reuseaddr strerror r fd arg3 = opt_setboolean strerror r fd arg3 SOL_SOCKET SO_REUSEADDR"

definition opt_set_reuseport :: opt_setter where
  "opt_set_reuseport strerror r fd arg3 = opt_setboolean strerror r fd arg3 SOL_SOCKET SO_REUSEPORT"

definition opt_set_keepalive :: opt_setter where
  "opt_set_keepalive strerror r fd arg3 = opt_setboolean strerror r fd arg3 SOL_SOCKET SO_KEEPALIVE"

definition opt_set_tcp_keepidle :: opt_setter where
  "opt_set_tcp_keepidle strerror r fd arg3 = opt_setint strerror r fd arg3 SOL_TCP TCP_KEEPIDLE"

definition opt_set_tcp_keepintvl :: opt_setter where
  "opt_set_tcp_keepintvl strerror r fd arg3 = opt_setint strerror r fd arg3 SOL_TCP TCP_KEEPINTVL"

definition opt_set_tcp_keepcnt :: opt_setter where
  "opt_set_tcp_keepcnt strerror r fd arg3 = opt_setint strerror r fd arg3 SOL_TCP TCP_KEEPCNT"

definition opt_set_tcp_fastopen :: opt_setter where
  "opt_set_tcp_fastopen strerror r fd arg3 = opt_setint strerror r fd arg3 SOL_TCP TCP_FASTOPEN"

definition opt_set_tcp_nodelay :: opt_setter where
  "opt_set_tcp_nodelay strerror r fd arg3 = opt_setboolean strerror r fd arg3 IPPROTO_TCP TCP_NODELAY"

definition opt_set_ipv6_v6only :: opt_setter where
  "opt_set_ipv6_v6only strerror r fd arg3 = opt_setboolean strerror r fd arg3 IPPROTO_IPV6 IPV6_V6ONLY"

definition opt_set_bindtodevice :: opt_setter where
  "opt_set_bindtodevice strerror r fd arg3 =
     (case arg3 of
        LString ifname \<Rightarrow>
          if strlen ifname \<ge> IFNAMSIZ
          then ([], Inl (ArgError 3 ''ifname too long''))
          else opt_set strerror r fd SOL_SOCKET SO_BINDTODEVICE
                 (Val_ifreq (strcpy (replicate IFNAMSIZ NUL) ifname))
      | _ \<Rightarrow> ([], Inl (TypeError 3 ''string expected'')))"

definition opt_set_netlink_add_membership :: opt_setter where
  "opt_set_netlink_add_membership strerror r fd arg3 =
     opt_setint strerror r fd arg3 SOL_NETLINK NETLINK_ADD_MEMBERSHIP"

definition opt_set_netlink_drop_membership :: opt_setter where
  "opt_set_netlink_drop_membership strerror r fd arg3 =
     opt_setint strerror r fd arg3 SOL_NETLINK NETLINK_DROP_MEMBERSHIP"

definition optset :: "(string \<times> opt_setter) list" where
  "optset =
     [(''reuseaddr'', opt_set_reuseaddr),
      (''reuseport'', opt_set_reuseport),
      (''keepalive'', opt_set_keepalive),
      (''tcp_keepidle'', opt_set_tcp_keepidle),
      (''tcp_keepintvl'', opt_set_tcp_keepintvl),
      (''tcp_keepcnt'', opt_set_tcp_keepcnt),
      (''tcp_fastopen'', opt_set_tcp_fastopen),
      (''tcp_nodelay'', opt_set_tcp_nodelay),
      (''ipv6_v6only'', opt_set_ipv6_v6only),
      (''bindtodevice'', opt_set_bindtodevice),
      (''netlink_add_membership'', opt_set_netlink_add_membership),
      (''netlink_drop_membership'', opt_set_netlink_drop_membership)]"

definition eco_socket_setoption ::
  "(int \<Rightarrow> string) \<Rightarrow> unit sysres \<Rightarrow> int \<Rightarrow> string \<Rightarrow> lua_value \<Rightarrow> syscall list \<times> lua_ret" where
  "eco_socket_setoption strerror r fd name arg3 =
     (case sock_opt_scan optset name of
        None \<Rightarrow> ([], Inl (ArgError 2 (unsupported_option_msg name)))
      | Some func \<Rightarrow> func strerror r (c_int fd) arg3)"

section \<open>Interface names and indexes\<close>




section \<open>Interrupted calls\<close>

text \<open>
  \<open>interrupted env m\<close>: the first \<open>m\<close> calls fail with \<^verbatim>\<open>EINTR\<close> and the next one,
  call number \<open>m\<close>, does not.
\<close>

definition interrupted :: "(nat \<Rightarrow> 'a sysres) \<Rightarrow> nat \<Rightarrow> bool" where
  "interrupted env m \<longleftrightarrow> (\<forall>k<m. env k = Failed EINTR) \<and> env m \<noteq> Failed EINTR"

section \<open>Sample environments\<close>

text \<open>
  Concrete kernels and C libraries for the examples: a kernel that answers every call
  alike, one that interrupts the first two calls, a few of the messages of glibc's
  \<^verbatim>\<open>strerror\<close>, an allocator that never fails, and address conversions that know the
  loopback addresses.
\<close>

definition always :: "'a \<Rightarrow> nat \<Rightarrow> 'a" where
  "always x k = x"

definition interrupted_twice :: "'a sysres \<Rightarrow> nat \<Rightarrow> 'a sysres" where
  "interrupted_twice r k = (if k < 2 then Failed EINTR else r)"

definition strerror_linux :: "int \<Rightarrow> string" where
  "strerror_linux e =
     (if e = 12 then ''Cannot allocate memory''
      else if e = 32 then ''Broken pipe''
      else if e = 104 then ''Connection reset by peer''
      else if e = 111 then ''Connection refused''
      else ''Unknown error'')"

definition malloc_always :: "nat \<Rightarrow> bool" where
  "malloc_always n = True"

definition sample_pton4 :: "string \<Rightarrow> 32 word option" where
  "sample_pton4 s = (if s = ''127.0.0.1'' then Some 0x0100007F else None)"

definition sample_ntop4 :: "32 word \<Rightarrow> string" where
  "sample_ntop4 a = (if a = 0x0100007F then ''127.0.0.1'' else ''0.0.0.0'')"

definition sample_pton6 :: "string \<Rightarrow> 128 word option" where
  "sample_pton6 s = (if s = ''::1'' then Some 0x01000000000000000000000000000000 else None)"

definition sample_ntop6 :: "128 word \<Rightarrow> string" where
  "sample_ntop6 a = (if a = 0x01000000000000000000000000000000 then ''::1'' else ''::'')"

section \<open>Properties\<close>




subsection \<open>The loop of \<^verbatim>\<open>accept\<close>\<close>

lemma accept_again_interrupted:
  "env (length tr) = Failed EINTR \<Longrightarrow>
   eco_socket_accept_again p4 p6 env lfd tr = eco_socket_accept_again p4 p6 env lfd (tr @ [SYS_accept4 lfd (SOCK_NONBLOCK OR SOCK_CLOEXEC)])"
  by (subst eco_socket_accept_again.simps) simp

lemma accept_again_skip:
  "(\<forall>k<m. env (length tr + k) = Failed EINTR) \<Longrightarrow>
   eco_socket_accept_again p4 p6 env lfd tr = eco_socket_accept_again p4 p6 env lfd (tr @ replicate m (SYS_accept4 lfd (SOCK_NONBLOCK OR SOCK_CLOEXEC)))"
proof (induction m arbitrary: tr)
  case 0
  show ?case by simp
next
  case (Suc m)
  let ?c = "SYS_accept4 lfd (SOCK_NONBLOCK OR SOCK_CLOEXEC)"
  from Suc.prems have "env (length tr + 0) = Failed EINTR"
    by blast
  then have first: "eco_socket_accept_again p4 p6 env lfd tr = eco_socket_accept_again p4 p6 env lfd (tr @ [?c])"
    by (simp add: accept_again_interrupted)
  have "\<forall>k<m. env (length (tr @ [?c]) + k) = Failed EINTR"
  proof (intro allI impI)
    fix k
    assume "k < m"
    then have "env (length tr + Suc k) = Failed EINTR"
      using Suc.prems by blast
    then show "env (length (tr @ [?c]) + k) = Failed EINTR"
      by simp
  qed
  then have "eco_socket_accept_again p4 p6 env lfd (tr @ [?c]) = eco_socket_accept_again p4 p6 env lfd ((tr @ [?c]) @ replicate m ?c)"
    by (rule Suc.IH)
  with first show ?case
    by simp
qed

lemma accept_again_done:
  assumes "env (length tr) \<noteq> Failed EINTR"
  shows "eco_socket_accept_again p4 p6 env lfd tr =
         Some (tr @ [SYS_accept4 lfd (SOCK_NONBLOCK OR SOCK_CLOEXEC)],
               case env (length tr) of
                 Failed errno \<Rightarrow> Inr [LNil, LInteger errno]
               | Ok (fd, addr, addrlen) \<Rightarrow>
                   (case push_socket_addr p4 p6 addr addrlen of
                      Inl e \<Rightarrow> Inl e
                    | Inr t \<Rightarrow> Inr [LInteger fd, t]))"
  using assms by (subst eco_socket_accept_again.simps) (simp split: sysres.splits prod.splits)

lemma accept_again_returns:
  assumes "eco_socket_accept_again p4 p6 env lfd tr = Some y"
  shows "\<exists>m. fst y = tr @ replicate (Suc m) (SYS_accept4 lfd (SOCK_NONBLOCK OR SOCK_CLOEXEC))
           \<and> (\<forall>k<m. env (length tr + k) = Failed EINTR)
           \<and> env (length tr + m) \<noteq> Failed EINTR"
proof (rule eco_socket_accept_again.raw_induct
    [where P = "\<lambda>p4 p6 env lfd tr y. \<exists>m. fst y = tr @ replicate (Suc m) (SYS_accept4 lfd (SOCK_NONBLOCK OR SOCK_CLOEXEC))
           \<and> (\<forall>k<m. env (length tr + k) = Failed EINTR)
           \<and> env (length tr + m) \<noteq> Failed EINTR", OF _ assms], goal_cases)
  case (1 again p4 p6 env lfd tr y)
  let ?c = "SYS_accept4 lfd (SOCK_NONBLOCK OR SOCK_CLOEXEC)"
  show ?case
  proof (cases "env (length tr) = Failed EINTR")
    case True
    with 1(2) have "again p4 p6 env lfd (tr @ [?c]) = Some y"
      by simp
    from 1(1)[OF this] obtain m where m:
      "fst y = (tr @ [?c]) @ replicate (Suc m) ?c"
      "\<forall>k<m. env (length (tr @ [?c]) + k) = Failed EINTR"
      "env (length (tr @ [?c]) + m) \<noteq> Failed EINTR"
      by blast
    have "\<forall>k<Suc m. env (length tr + k) = Failed EINTR"
    proof (intro allI impI)
      fix k
      assume k: "k < Suc m"
      show "env (length tr + k) = Failed EINTR"
      proof (cases k)
        case 0
        with True show ?thesis by simp
      next
        case (Suc j)
        with k have "j < m" by simp
        with m(2) have "env (length (tr @ [?c]) + j) = Failed EINTR" by blast
        with Suc show ?thesis by simp
      qed
    qed
    moreover from m(1) have "fst y = tr @ replicate (Suc (Suc m)) ?c"
      by (simp add: replicate_app_Cons_same)
    moreover from m(3) have "env (length tr + Suc m) \<noteq> Failed EINTR"
      by simp
    ultimately show ?thesis
      by blast
  next
    case False
    with 1(2) have "fst y = tr @ [?c]"
      by (auto split: sysres.splits if_splits prod.splits)
    with False show ?thesis
      by (intro exI[of _ 0]) simp
  qed
qed

lemma accept_again_forever:
  assumes "\<forall>k. env k = Failed EINTR"
  shows "eco_socket_accept_again p4 p6 env lfd tr = None"
proof (cases "eco_socket_accept_again p4 p6 env lfd tr")
  case None
  then show ?thesis .
next
  case (Some y)
  from accept_again_returns[OF this] assms show ?thesis
    by auto
qed

subsection \<open>The loop of \<^verbatim>\<open>send\<close>\<close>

lemma send_again_interrupted:
  "env (length tr) = Failed EINTR \<Longrightarrow>
   eco_socket_send_again se env fd data flags tr = eco_socket_send_again se env fd data flags (tr @ [SYS_send fd data flags])"
  by (subst eco_socket_send_again.simps) simp

lemma send_again_skip:
  "(\<forall>k<m. env (length tr + k) = Failed EINTR) \<Longrightarrow>
   eco_socket_send_again se env fd data flags tr = eco_socket_send_again se env fd data flags (tr @ replicate m (SYS_send fd data flags))"
proof (induction m arbitrary: tr)
  case 0
  show ?case by simp
next
  case (Suc m)
  let ?c = "SYS_send fd data flags"
  from Suc.prems have "env (length tr + 0) = Failed EINTR"
    by blast
  then have first: "eco_socket_send_again se env fd data flags tr = eco_socket_send_again se env fd data flags (tr @ [?c])"
    by (simp add: send_again_interrupted)
  have "\<forall>k<m. env (length (tr @ [?c]) + k) = Failed EINTR"
  proof (intro allI impI)
    fix k
    assume "k < m"
    then have "env (length tr + Suc k) = Failed EINTR"
      using Suc.prems by blast
    then show "env (length (tr @ [?c]) + k) = Failed EINTR"
      by simp
  qed
  then have "eco_socket_send_again se env fd data flags (tr @ [?c]) = eco_socket_send_again se env fd data flags ((tr @ [?c]) @ replicate m ?c)"
    by (rule Suc.IH)
  with first show ?case
    by simp
qed

lemma send_again_done:
  assumes "env (length tr) \<noteq> Failed EINTR"
  shows "eco_socket_send_again se env fd data flags tr =
         Some (tr @ [SYS_send fd data flags],
               case env (length tr) of
                 Failed errno \<Rightarrow>
                   Inr [LNil, if errno = EPIPE then LString ''closed'' else LString (se errno)]
               | Ok ret \<Rightarrow> Inr [LInteger ret])"
  using assms by (subst eco_socket_send_again.simps) (simp split: sysres.splits)

lemma send_again_returns:
  assumes "eco_socket_send_again se env fd data flags tr = Some y"
  shows "\<exists>m. fst y = tr @ replicate (Suc m) (SYS_send fd data flags)
           \<and> (\<forall>k<m. env (length tr + k) = Failed EINTR)
           \<and> env (length tr + m) \<noteq> Failed EINTR"
proof (rule eco_socket_send_again.raw_induct
    [where P = "\<lambda>se env fd data flags tr y. \<exists>m. fst y = tr @ replicate (Suc m) (SYS_send fd data flags)
           \<and> (\<forall>k<m. env (length tr + k) = Failed EINTR)
           \<and> env (length tr + m) \<noteq> Failed EINTR", OF _ assms], goal_cases)
  case (1 again se env fd data flags tr y)
  let ?c = "SYS_send fd data flags"
  show ?case
  proof (cases "env (length tr) = Failed EINTR")
    case True
    with 1(2) have "again se env fd data flags (tr @ [?c]) = Some y"
      by simp
    from 1(1)[OF this] obtain m where m:
      "fst y = (tr @ [?c]) @ replicate (Suc m) ?c"
      "\<forall>k<m. env (length (tr @ [?c]) + k) = Failed EINTR"
      "env (length (tr @ [?c]) + m) \<noteq> Failed EINTR"
      by blast
    have "\<forall>k<Suc m. env (length tr + k) = Failed EINTR"
    proof (intro allI impI)
      fix k
      assume k: "k < Suc m"
      show "env (length tr + k) = Failed EINTR"
      proof (cases k)
        case 0
        with True show ?thesis by simp
      next
        case (Suc j)
        with k have "j < m" by simp
        with m(2) have "env (length (tr @ [?c]) + j) = Failed EINTR" by blast
        with Suc show ?thesis by simp
      qed
    qed
    moreover from m(1) have "fst y = tr @ replicate (Suc (Suc m)) ?c"
      by (simp add: replicate_app_Cons_same)
    moreover from m(3) have "env (length tr + Suc m) \<noteq> Failed EINTR"
      by simp
    ultimately show ?thesis
      by blast
  next
    case False
    with 1(2) have "fst y = tr @ [?c]"
      by (auto split: sysres.splits if_splits prod.splits)
    with False show ?thesis
      by (intro exI[of _ 0]) simp
  qed
qed

lemma send_again_forever:
  assumes "\<forall>k. env k = Failed EINTR"
  shows "eco_socket_send_again se env fd data flags tr = None"
proof (cases "eco_socket_send_again se env fd data flags tr")
  case None
  then show ?thesis .
next
  case (Some y)
  from send_again_returns[OF this] assms show ?thesis
    by auto
qed

subsection \<open>The loop of \<^verbatim>\<open>recv\<close>\<close>

lemma recv_again_interrupted:
  "env (length tr) = Failed EINTR \<Longrightarrow>
   eco_socket_recv_again se env fd sz flags tr = eco_socket_recv_again se env fd sz flags (tr @ [SYS_recv fd sz flags])"
  by (subst eco_socket_recv_again.simps) simp

lemma recv_again_skip:
  "(\<forall>k<m. env (length tr + k) = Failed EINTR) \<Longrightarrow>
   eco_socket_recv_again se env fd sz flags tr = eco_socket_recv_again se env fd sz flags (tr @ replicate m (SYS_recv fd sz flags))"
proof (induction m arbitrary: tr)
  case 0
  show ?case by simp
next
  case (Suc m)
  let ?c = "SYS_recv fd sz flags"
  from Suc.prems have "env (length tr + 0) = Failed EINTR"
    by blast
  then have first: "eco_socket_recv_again se env fd sz flags tr = eco_socket_recv_again se env fd sz flags (tr @ [?c])"
    by (simp add: recv_again_interrupted)
  have "\<forall>k<m. env (length (tr @ [?c]) + k) = Failed EINTR"
  proof (intro allI impI)
    fix k
    assume "k < m"
    then have "env (length tr + Suc k) = Failed EINTR"
      using Suc.prems by blast
    then show "env (length (tr @ [?c]) + k) = Failed EINTR"
      by simp
  qed
  then have "eco_socket_recv_again se env fd sz flags (tr @ [?c]) = eco_socket_recv_again se env fd sz flags ((tr @ [?c]) @ replicate m ?c)"
    by (rule Suc.IH)
  with first show ?case
    by simp
qed

lemma recv_again_done:
  assumes "env (length tr) \<noteq> Failed EINTR"
  shows "eco_socket_recv_again se env fd sz flags tr =
         Some (tr @ [SYS_recv fd sz flags],
               case env (length tr) of
                 Failed errno \<Rightarrow> Inr [LNil, LString (se errno)]
               | Ok (ret, buf) \<Rightarrow>
                   if ret \<le> sz then Inr [LString (take ret buf)] else Inl OutOfBounds)"
  using assms by (subst eco_socket_recv_again.simps) (simp split: sysres.splits prod.splits)

lemma recv_again_returns:
  assumes "eco_socket_recv_again se env fd sz flags tr = Some y"
  shows "\<exists>m. fst y = tr @ replicate (Suc m) (SYS_recv fd sz flags)
           \<and> (\<forall>k<m. env (length tr + k) = Failed EINTR)
           \<and> env (length tr + m) \<noteq> Failed EINTR"
proof (rule eco_socket_recv_again.raw_induct
    [where P = "\<lambda>se env fd sz flags tr y. \<exists>m. fst y = tr @ replicate (Suc m) (SYS_recv fd sz flags)
           \<and> (\<forall>k<m. env (length tr + k) = Failed EINTR)
           \<and> env (length tr + m) \<noteq> Failed EINTR", OF _ assms], goal_cases)
  case (1 again se env fd sz flags tr y)
  let ?c = "SYS_recv fd sz flags"
  show ?case
  proof (cases "env (length tr) = Failed EINTR")
    case True
    with 1(2) have "again se env fd sz flags (tr @ [?c]) = Some y"
      by simp
    from 1(1)[OF this] obtain m where m:
      "fst y = (tr @ [?c]) @ replicate (Suc m) ?c"
      "\<forall>k<m. env (length (tr @ [?c]) + k) = Failed EINTR"
      "env (length (tr @ [?c]) + m) \<noteq> Failed EINTR"
      by blast
    have "\<forall>k<Suc m. env (length tr + k) = Failed EINTR"
    proof (intro allI impI)
      fix k
      assume k: "k < Suc m"
      show "env (length tr + k) = Failed EINTR"
      proof (cases k)
        case 0
        with True show ?thesis by simp
      next
        case (Suc j)
        with k have "j < m" by simp
        with m(2) have "env (length (tr @ [?c]) + j) = Failed EINTR" by blast
        with Suc show ?thesis by simp
      qed
    qed
    moreover from m(1) have "fst y = tr @ replicate (Suc (Suc m)) ?c"
      by (simp add: replicate_app_Cons_same)
    moreover from m(3) have "env (length tr + Suc m) \<noteq> Failed EINTR"
      by simp
    ultimately show ?thesis
      by blast
  next
    case False
    with 1(2) have "fst y = tr @ [?c]"
      by (auto split: sysres.splits if_splits prod.splits)
    with False show ?thesis
      by (intro exI[of _ 0]) simp
  qed
qed

lemma recv_again_forever:
  assumes "\<forall>k. env k = Failed EINTR"
  shows "eco_socket_recv_again se env fd sz flags tr = None"
proof (cases "eco_socket_recv_again se env fd sz flags tr")
  case None
  then show ?thesis .
next
  case (Some y)
  from recv_again_returns[OF this] assms show ?thesis
    by auto
qed

subsection \<open>The loop of \<^verbatim>\<open>sendto_common\<close>\<close>

lemma sendto_common_again_interrupted:
  "env (length tr) = Failed EINTR \<Longrightarrow>
   eco_socket_sendto_common se env fd data addr addrlen flags tr = eco_socket_sendto_common se env fd data addr addrlen flags (tr @ [SYS_sendto fd data flags addr addrlen])"
  by (subst eco_socket_sendto_common.simps) simp

lemma sendto_common_again_skip:
  "(\<forall>k<m. env (length tr + k) = Failed EINTR) \<Longrightarrow>
   eco_socket_sendto_common se env fd data addr addrlen flags tr = eco_socket_sendto_common se env fd data addr addrlen flags (tr @ replicate m (SYS_sendto fd data flags addr addrlen))"
proof (induction m arbitrary: tr)
  case 0
  show ?case by simp
next
  case (Suc m)
  let ?c = "SYS_sendto fd data flags addr addrlen"
  from Suc.prems have "env (length tr + 0) = Failed EINTR"
    by blast
  then have first: "eco_socket_sendto_common se env fd data addr addrlen flags tr = eco_socket_sendto_common se env fd data addr addrlen flags (tr @ [?c])"
    by (simp add: sendto_common_again_interrupted)
  have "\<forall>k<m. env (length (tr @ [?c]) + k) = Failed EINTR"
  proof (intro allI impI)
    fix k
    assume "k < m"
    then have "env (length tr + Suc k) = Failed EINTR"
      using Suc.prems by blast
    then show "env (length (tr @ [?c]) + k) = Failed EINTR"
      by simp
  qed
  then have "eco_socket_sendto_common se env fd data addr addrlen flags (tr @ [?c]) = eco_socket_sendto_common se env fd data addr addrlen flags ((tr @ [?c]) @ replicate m ?c)"
    by (rule Suc.IH)
  with first show ?case
    by simp
qed

lemma sendto_common_again_done:
  assumes "env (length tr) \<noteq> Failed EINTR"
  shows "eco_socket_sendto_common se env fd data addr addrlen flags tr =
         Some (tr @ [SYS_sendto fd data flags addr addrlen],
               case env (length tr) of
                 Failed errno \<Rightarrow> Inr [LNil, LString (se errno)]
               | Ok ret \<Rightarrow> Inr [LInteger ret])"
  using assms by (subst eco_socket_sendto_common.simps) (simp split: sysres.splits)

lemma sendto_common_again_returns:
  assumes "eco_socket_sendto_common se env fd data addr addrlen flags tr = Some y"
  shows "\<exists>m. fst y = tr @ replicate (Suc m) (SYS_sendto fd data flags addr addrlen)
           \<and> (\<forall>k<m. env (length tr + k) = Failed EINTR)
           \<and> env (length tr + m) \<noteq> Failed EINTR"
proof (rule eco_socket_sendto_common.raw_induct
    [where P = "\<lambda>se env fd data addr addrlen flags tr y. \<exists>m. fst y = tr @ replicate (Suc m) (SYS_sendto fd data flags addr addrlen)
           \<and> (\<forall>k<m. env (length tr + k) = Failed EINTR)
           \<and> env (length tr + m) \<noteq> Failed EINTR", OF _ assms], goal_cases)
  case (1 again se env fd data addr addrlen flags tr y)
  let ?c = "SYS_sendto fd data flags addr addrlen"
  show ?case
  proof (cases "env (length tr) = Failed EINTR")
    case True
    with 1(2) have "again se env fd data addr addrlen flags (tr @ [?c]) = Some y"
      by simp
    from 1(1)[OF this] obtain m where m:
      "fst y = (tr @ [?c]) @ replicate (Suc m) ?c"
      "\<forall>k<m. env (length (tr @ [?c]) + k) = Failed EINTR"
      "env (length (tr @ [?c]) + m) \<noteq> Failed EINTR"
      by blast
    have "\<forall>k<Suc m. env (length tr + k) = Failed EINTR"
    proof (intro allI impI)
      fix k
      assume k: "k < Suc m"
      show "env (length tr + k) = Failed EINTR"
      proof (cases k)
        case 0
        with True show ?thesis by simp
      next
        case (Suc j)
        with k have "j < m" by simp
        with m(2) have "env (length (tr @ [?c]) + j) = Failed EINTR" by blast
        with Suc show ?thesis by simp
      qed
    qed
    moreover from m(1) have "fst y = tr @ replicate (Suc (Suc m)) ?c"
      by (simp add: replicate_app_Cons_same)
    moreover from m(3) have "env (length tr + Suc m) \<noteq> Failed EINTR"
      by simp
    ultimately show ?thesis
      by blast
  next
    case False
    with 1(2) have "fst y = tr @ [?c]"
      by (auto split: sysres.splits if_splits prod.splits)
    with False show ?thesis
      by (intro exI[of _ 0]) simp
  qed
qed

lemma sendto_common_again_forever:
  assumes "\<forall>k. env k = Failed EINTR"
  shows "eco_socket_sendto_common se env fd data addr addrlen flags tr = None"
proof (cases "eco_socket_sendto_common se env fd data addr addrlen flags tr")
  case None
  then show ?thesis .
next
  case (Some y)
  from sendto_common_again_returns[OF this] assms show ?thesis
    by auto
qed

subsection \<open>The loop of \<^verbatim>\<open>recvfrom\<close>\<close>

lemma recvfrom_again_interrupted:
  "env (length tr) = Failed EINTR \<Longrightarrow>
   eco_socket_recvfrom_again se p4 p6 env fd sz flags tr = eco_socket_recvfrom_again se p4 p6 env fd sz flags (tr @ [SYS_recvfrom fd sz flags])"
  by (subst eco_socket_recvfrom_again.simps) simp

lemma recvfrom_again_skip:
  "(\<forall>k<m. env (length tr + k) = Failed EINTR) \<Longrightarrow>
   eco_socket_recvfrom_again se p4 p6 env fd sz flags tr = eco_socket_recvfrom_again se p4 p6 env fd sz flags (tr @ replicate m (SYS_recvfrom fd sz flags))"
proof (induction m arbitrary: tr)
  case 0
  show ?case by simp
next
  case (Suc m)
  let ?c = "SYS_recvfrom fd sz flags"
  from Suc.prems have "env (length tr + 0) = Failed EINTR"
    by blast
  then have first: "eco_socket_recvfrom_again se p4 p6 env fd sz flags tr = eco_socket_recvfrom_again se p4 p6 env fd sz flags (tr @ [?c])"
    by (simp add: recvfrom_again_interrupted)
  have "\<forall>k<m. env (length (tr @ [?c]) + k) = Failed EINTR"
  proof (intro allI impI)
    fix k
    assume "k < m"
    then have "env (length tr + Suc k) = Failed EINTR"
      using Suc.prems by blast
    then show "env (length (tr @ [?c]) + k) = Failed EINTR"
      by simp
  qed
  then have "eco_socket_recvfrom_again se p4 p6 env fd sz flags (tr @ [?c]) = eco_socket_recvfrom_again se p4 p6 env fd sz flags ((tr @ [?c]) @ replicate m ?c)"
    by (rule Suc.IH)
  with first show ?case
    by simp
qed

lemma recvfrom_again_done:
  assumes "env (length tr) \<noteq> Failed EINTR"
  shows "eco_socket_recvfrom_again se p4 p6 env fd sz flags tr =
         Some (tr @ [SYS_recvfrom fd sz flags],
               case env (length tr) of
                 Failed errno \<Rightarrow> Inr [LNil, LString (se errno)]
               | Ok (ret, buf, addr, addrlen) \<Rightarrow>
                   if ret \<le> sz then
                     (if addrlen \<noteq> 0 then
                        (case push_socket_addr p4 p6 addr addrlen of
                           Inl e \<Rightarrow> Inl e
                         | Inr t \<Rightarrow> Inr [LString (take ret buf), t])
                      else Inr [LString (take ret buf)])
                   else Inl OutOfBounds)"
  using assms by (subst eco_socket_recvfrom_again.simps) (simp split: sysres.splits prod.splits)

lemma recvfrom_again_returns:
  assumes "eco_socket_recvfrom_again se p4 p6 env fd sz flags tr = Some y"
  shows "\<exists>m. fst y = tr @ replicate (Suc m) (SYS_recvfrom fd sz flags)
           \<and> (\<forall>k<m. env (length tr + k) = Failed EINTR)
           \<and> env (length tr + m) \<noteq> Failed EINTR"
proof (rule eco_socket_recvfrom_again.raw_induct
    [where P = "\<lambda>se p4 p6 env fd sz flags tr y. \<exists>m. fst y = tr @ replicate (Suc m) (SYS_recvfrom fd sz flags)
           \<and> (\<forall>k<m. env (length tr + k) = Failed EINTR)
           \<and> env (length tr + m) \<noteq> Failed EINTR", OF _ assms], goal_cases)
  case (1 again se p4 p6 env fd sz flags tr y)
  let ?c = "SYS_recvfrom fd sz flags"
  show ?case
  proof (cases "env (length tr) = Failed EINTR")
    case True
    with 1(2) have "again se p4 p6 env fd sz flags (tr @ [?c]) = Some y"
      by simp
    from 1(1)[OF this] obtain m where m:
      "fst y = (tr @ [?c]) @ replicate (Suc m) ?c"
      "\<forall>k<m. env (length (tr @ [?c]) + k) = Failed EINTR"
      "env (length (tr @ [?c]) + m) \<noteq> Failed EINTR"
      by blast
    have "\<forall>k<Suc m. env (length tr + k) = Failed EINTR"
    proof (intro allI impI)
      fix k
      assume k: "k < Suc m"
      show "env (length tr + k) = Failed EINTR"
      proof (cases k)
        case 0
        with True show ?thesis by simp
      next
        case (Suc j)
        with k have "j < m" by simp
        with m(2) have "env (length (tr @ [?c]) + j) = Failed EINTR" by blast
        with Suc show ?thesis by simp
      qed
    qed
    moreover from m(1) have "fst y = tr @ replicate (Suc (Suc m)) ?c"
      by (simp add: replicate_app_Cons_same)
    moreover from m(3) have "env (length tr + Suc m) \<noteq> Failed EINTR"
      by simp
    ultimately show ?thesis
      by blast
  next
    case False
    with 1(2) have "fst y = tr @ [?c]"
      by (auto split: sysres.splits if_splits prod.splits)
    with False show ?thesis
      by (intro exI[of _ 0]) simp
  qed
qed

lemma recvfrom_again_forever:
  assumes "\<forall>k. env k = Failed EINTR"
  shows "eco_socket_recvfrom_again se p4 p6 env fd sz flags tr = None"
proof (cases "eco_socket_recvfrom_again se p4 p6 env fd sz flags tr")
  case None
  then show ?thesis .
next
  case (Some y)
  from recvfrom_again_returns[OF this] assms show ?thesis
    by auto
qed

subsection \<open>Interrupted operations\<close>

lemma c_int_small: "- (2 ^ 31) \<le> n \<Longrightarrow> n < 2 ^ 31 \<Longrightarrow> c_int n = n"
  unfolding c_int_def by (simp add: signed_take_bit_int_eq_self sint_sbintrunc')

lemma c_int_samples: "c_int 0 = 0" "c_int 3 = 3" "c_int 32 = 32"
  by (simp_all add: c_int_def)

lemma accept_outcome:
  assumes "interrupted env m"
  shows "eco_socket_accept p4 p6 env lfd =
         Some (replicate (Suc m) (SYS_accept4 (c_int lfd) (SOCK_NONBLOCK OR SOCK_CLOEXEC)),
               case env m of
                 Failed errno \<Rightarrow> Inr [LNil, LInteger errno]
               | Ok (fd, addr, addrlen) \<Rightarrow>
                   (case push_socket_addr p4 p6 addr addrlen of
                      Inl e \<Rightarrow> Inl e
                    | Inr t \<Rightarrow> Inr [LInteger fd, t]))"
proof -
  let ?c = "SYS_accept4 (c_int lfd) (SOCK_NONBLOCK OR SOCK_CLOEXEC)"
  from assms have pre: "\<forall>k<m. env (length ([]::syscall list) + k) = Failed EINTR"
    and fin: "env (length (replicate m ?c)) \<noteq> Failed EINTR"
    by (simp_all add: interrupted_def)
  have "eco_socket_accept_again p4 p6 env (c_int lfd) [] =
        eco_socket_accept_again p4 p6 env (c_int lfd) ([] @ replicate m ?c)"
    by (rule accept_again_skip[OF pre])
  with accept_again_done[where env = env and tr = "replicate m ?c" and ?p4.0 = p4 and ?p6.0 = p6 and lfd = "c_int lfd", OF fin]
  show ?thesis
    by (simp add: eco_socket_accept_def replicate_append_same)
qed

lemma send_outcome:
  assumes "interrupted env m"
  shows "eco_socket_send se env fd data flags =
         Some (replicate (Suc m) (SYS_send (c_int fd) data (c_int (luaL_optinteger flags 0))),
               case env m of
                 Failed errno \<Rightarrow>
                   Inr [LNil, if errno = EPIPE then LString ''closed'' else LString (se errno)]
               | Ok ret \<Rightarrow> Inr [LInteger ret])"
proof -
  let ?c = "SYS_send (c_int fd) data (c_int (luaL_optinteger flags 0))"
  from assms have pre: "\<forall>k<m. env (length ([]::syscall list) + k) = Failed EINTR"
    and fin: "env (length (replicate m ?c)) \<noteq> Failed EINTR"
    by (simp_all add: interrupted_def)
  have "eco_socket_send_again se env (c_int fd) data (c_int (luaL_optinteger flags 0)) [] =
        eco_socket_send_again se env (c_int fd) data (c_int (luaL_optinteger flags 0))
          ([] @ replicate m ?c)"
    by (rule send_again_skip[OF pre])
  with send_again_done[where env = env and tr = "replicate m ?c" and se = se and fd = "c_int fd" and data = data
      and flags = "c_int (luaL_optinteger flags 0)", OF fin]
  show ?thesis
    by (simp add: eco_socket_send_def replicate_append_same)
qed

lemma sendto_common_outcome:
  assumes "interrupted env m"
  shows "eco_socket_sendto_common se env fd data addr addrlen flags [] =
         Some (replicate (Suc m) (SYS_sendto fd data flags addr addrlen),
               case env m of
                 Failed errno \<Rightarrow> Inr [LNil, LString (se errno)]
               | Ok ret \<Rightarrow> Inr [LInteger ret])"
proof -
  let ?c = "SYS_sendto fd data flags addr addrlen"
  from assms have pre: "\<forall>k<m. env (length ([]::syscall list) + k) = Failed EINTR"
    and fin: "env (length (replicate m ?c)) \<noteq> Failed EINTR"
    by (simp_all add: interrupted_def)
  have "eco_socket_sendto_common se env fd data addr addrlen flags [] =
        eco_socket_sendto_common se env fd data addr addrlen flags ([] @ replicate m ?c)"
    by (rule sendto_common_again_skip[OF pre])
  with sendto_common_again_done[where env = env and tr = "replicate m ?c" and se = se and fd = fd and data = data and addr = addr
      and addrlen = addrlen and flags = flags, OF fin]
  show ?thesis
    by (simp add: replicate_append_same)
qed

lemma recv_outcome:
  assumes "interrupted env m"
    and "(word_of_int max_length :: 64 word) \<noteq> 0"
    and "malloc_ok (unat (word_of_int max_length :: 64 word))"
  shows "eco_socket_recv se malloc_ok env fd max_length flags =
         Some (replicate (Suc m)
                 (SYS_recv (c_int fd) (unat (word_of_int max_length :: 64 word))
                    (c_int (luaL_optinteger flags 0))),
               case env m of
                 Failed errno \<Rightarrow> Inr [LNil, LString (se errno)]
               | Ok (ret, buf) \<Rightarrow>
                   if ret \<le> unat (word_of_int max_length :: 64 word)
                   then Inr [LString (take ret buf)] else Inl OutOfBounds)"
proof -
  let ?sz = "unat (word_of_int max_length :: 64 word)"
  let ?fl = "c_int (luaL_optinteger flags 0)"
  let ?c = "SYS_recv (c_int fd) ?sz ?fl"
  from assms(1) have pre: "\<forall>k<m. env (length ([]::syscall list) + k) = Failed EINTR"
    and fin: "env (length (replicate m ?c)) \<noteq> Failed EINTR"
    by (simp_all add: interrupted_def)
  have "eco_socket_recv_again se env (c_int fd) ?sz ?fl [] =
        eco_socket_recv_again se env (c_int fd) ?sz ?fl ([] @ replicate m ?c)"
    by (rule recv_again_skip[OF pre])
  with recv_again_done[where env = env and tr = "replicate m ?c" and se = se and fd = "c_int fd" and sz = ?sz and flags = ?fl, OF fin]
  show ?thesis
    using assms(2,3) by (simp add: eco_socket_recv_def Let_def replicate_append_same)
qed

lemma recvfrom_outcome:
  assumes "interrupted env m"
    and "(word_of_int max_length :: 64 word) \<noteq> 0"
    and "malloc_ok (unat (word_of_int max_length :: 64 word))"
  shows "eco_socket_recvfrom se p4 p6 malloc_ok env fd max_length flags =
         Some (replicate (Suc m)
                 (SYS_recvfrom (c_int fd) (unat (word_of_int max_length :: 64 word))
                    (c_int (luaL_optinteger flags 0))),
               case env m of
                 Failed errno \<Rightarrow> Inr [LNil, LString (se errno)]
               | Ok (ret, buf, addr, addrlen) \<Rightarrow>
                   if ret \<le> unat (word_of_int max_length :: 64 word) then
                     (if addrlen \<noteq> 0 then
                        (case push_socket_addr p4 p6 addr addrlen of
                           Inl e \<Rightarrow> Inl e
                         | Inr t \<Rightarrow> Inr [LString (take ret buf), t])
                      else Inr [LString (take ret buf)])
                   else Inl OutOfBounds)"
proof -
  let ?sz = "unat (word_of_int max_length :: 64 word)"
  let ?fl = "c_int (luaL_optinteger flags 0)"
  let ?c = "SYS_recvfrom (c_int fd) ?sz ?fl"
  from assms(1) have pre: "\<forall>k<m. env (length ([]::syscall list) + k) = Failed EINTR"
    and fin: "env (length (replicate m ?c)) \<noteq> Failed EINTR"
    by (simp_all add: interrupted_def)
  have "eco_socket_recvfrom_again se p4 p6 env (c_int fd) ?sz ?fl [] =
        eco_socket_recvfrom_again se p4 p6 env (c_int fd) ?sz ?fl ([] @ replicate m ?c)"
    by (rule recvfrom_again_skip[OF pre])
  with recvfrom_again_done[where env = env and tr = "replicate m ?c" and se = se and ?p4.0 = p4 and ?p6.0 = p6 and fd = "c_int fd"
      and sz = ?sz and flags = ?fl, OF fin]
  show ?thesis
    using assms(2,3) by (simp add: eco_socket_recvfrom_def Let_def replicate_append_same)
qed

lemma accept_forever:
  "\<forall>k. env k = Failed EINTR \<Longrightarrow> eco_socket_accept p4 p6 env lfd = None"
  by (simp add: eco_socket_accept_def accept_again_forever)

lemma send_forever:
  "\<forall>k. env k = Failed EINTR \<Longrightarrow> eco_socket_send se env fd data flags = None"
  by (simp add: eco_socket_send_def send_again_forever)

lemma recv_forever:
  assumes "\<forall>k. env k = Failed EINTR"
    and "(word_of_int max_length :: 64 word) \<noteq> 0"
    and "malloc_ok (unat (word_of_int max_length :: 64 word))"
  shows "eco_socket_recv se malloc_ok env fd max_length flags = None"
  using assms by (simp add: eco_socket_recv_def Let_def recv_again_forever)

lemma recvfrom_forever:
  assumes "\<forall>k. env k = Failed EINTR"
    and "(word_of_int max_length :: 64 word) \<noteq> 0"
    and "malloc_ok (unat (word_of_int max_length :: 64 word))"
  shows "eco_socket_recvfrom se p4 p6 malloc_ok env fd max_length flags = None"
  using assms by (simp add: eco_socket_recvfrom_def Let_def recvfrom_again_forever)

lemma interrupted_twice_interrupted:
  "r \<noteq> Failed EINTR \<Longrightarrow> interrupted (interrupted_twice r) 2"
  by (simp add: interrupted_def interrupted_twice_def)

lemma always_interrupted: "\<forall>k. always (Failed EINTR) k = Failed EINTR"
  by (simp add: always_def)

lemma replicate_three: "replicate 3 x = [x, x, x]"
  by (simp add: numeral_3_eq_3)

lemma push_socket_addr_unspec:
  "push_socket_addr p4 p6 (SA_generic AF_UNSPEC) len = Inr (LTable [(''family'', LInteger 0)])"
  by (simp add: push_socket_addr_def AF_UNSPEC_def AF_NETLINK_def AF_UNIX_def AF_INET_def AF_INET6_def)

text \<open>
  C4, as amended. Accept, send, receive, send_to and receive_from do not surface
  \<^verbatim>\<open>EINTR\<close>: when the call fails with \<^verbatim>\<open>EINTR\<close> it is issued again at once, any number
  of times, and what the caller gets is what the first answer other than \<^verbatim>\<open>EINTR\<close>,
  the answer to call number \<open>m\<close>, gives: its error report or its value. While every
  call fails with \<^verbatim>\<open>EINTR\<close> the operation does not return. Connect does not retry: a
  connect whose call fails with \<^verbatim>\<open>EINTR\<close> has issued the one call and reports
  \<^verbatim>\<open>false\<close> and \<^verbatim>\<open>EINTR\<close>.
\<close>

theorem eintr_retried_by_the_looping_operations:
  "(interrupted env_a m \<longrightarrow>
      eco_socket_accept p4 p6 env_a lfd =
        Some (replicate (Suc m) (SYS_accept4 (c_int lfd) (SOCK_NONBLOCK OR SOCK_CLOEXEC)),
              case env_a m of
                Failed errno \<Rightarrow> Inr [LNil, LInteger errno]
              | Ok (afd, aaddr, aaddrlen) \<Rightarrow>
                  (case push_socket_addr p4 p6 aaddr aaddrlen of
                     Inl e \<Rightarrow> Inl e
                   | Inr t \<Rightarrow> Inr [LInteger afd, t])))
   \<and> ((\<forall>k. env_a k = Failed EINTR) \<longrightarrow> eco_socket_accept p4 p6 env_a lfd = None)
   \<and> (interrupted env_s m \<longrightarrow>
      eco_socket_send se env_s fd data flags =
        Some (replicate (Suc m) (SYS_send (c_int fd) data (c_int (luaL_optinteger flags 0))),
              case env_s m of
                Failed errno \<Rightarrow>
                  Inr [LNil, if errno = EPIPE then LString ''closed'' else LString (se errno)]
              | Ok ret \<Rightarrow> Inr [LInteger ret]))
   \<and> ((\<forall>k. env_s k = Failed EINTR) \<longrightarrow> eco_socket_send se env_s fd data flags = None)
   \<and> (interrupted env_c m \<longrightarrow>
      eco_socket_sendto_common se env_c cfd data addr addrlen cflags [] =
        Some (replicate (Suc m) (SYS_sendto cfd data cflags addr addrlen),
              case env_c m of
                Failed errno \<Rightarrow> Inr [LNil, LString (se errno)]
              | Ok ret \<Rightarrow> Inr [LInteger ret]))
   \<and> ((\<forall>k. env_c k = Failed EINTR) \<longrightarrow>
      eco_socket_sendto_common se env_c cfd data addr addrlen cflags [] = None)
   \<and> (interrupted env_r m \<and> (word_of_int max_length :: 64 word) \<noteq> 0
        \<and> malloc_ok (unat (word_of_int max_length :: 64 word)) \<longrightarrow>
      eco_socket_recv se malloc_ok env_r fd max_length flags =
        Some (replicate (Suc m)
                (SYS_recv (c_int fd) (unat (word_of_int max_length :: 64 word))
                   (c_int (luaL_optinteger flags 0))),
              case env_r m of
                Failed errno \<Rightarrow> Inr [LNil, LString (se errno)]
              | Ok (ret, buf) \<Rightarrow>
                  if ret \<le> unat (word_of_int max_length :: 64 word)
                  then Inr [LString (take ret buf)] else Inl OutOfBounds))
   \<and> ((\<forall>k. env_r k = Failed EINTR) \<and> (word_of_int max_length :: 64 word) \<noteq> 0
        \<and> malloc_ok (unat (word_of_int max_length :: 64 word)) \<longrightarrow>
      eco_socket_recv se malloc_ok env_r fd max_length flags = None)
   \<and> (interrupted env_f m \<and> (word_of_int max_length :: 64 word) \<noteq> 0
        \<and> malloc_ok (unat (word_of_int max_length :: 64 word)) \<longrightarrow>
      eco_socket_recvfrom se p4 p6 malloc_ok env_f fd max_length flags =
        Some (replicate (Suc m)
                (SYS_recvfrom (c_int fd) (unat (word_of_int max_length :: 64 word))
                   (c_int (luaL_optinteger flags 0))),
              case env_f m of
                Failed errno \<Rightarrow> Inr [LNil, LString (se errno)]
              | Ok (ret, buf, faddr, faddrlen) \<Rightarrow>
                  if ret \<le> unat (word_of_int max_length :: 64 word) then
                    (if faddrlen \<noteq> 0 then
                       (case push_socket_addr p4 p6 faddr faddrlen of
                          Inl e \<Rightarrow> Inl e
                        | Inr t \<Rightarrow> Inr [LString (take ret buf), t])
                     else Inr [LString (take ret buf)])
                  else Inl OutOfBounds))
   \<and> ((\<forall>k. env_f k = Failed EINTR) \<and> (word_of_int max_length :: 64 word) \<noteq> 0
        \<and> malloc_ok (unat (word_of_int max_length :: 64 word)) \<longrightarrow>
      eco_socket_recvfrom se p4 p6 malloc_ok env_f fd max_length flags = None)
   \<and> eco_socket_connect_common (Failed EINTR) cfd addr addrlen =
        ([SYS_connect cfd addr addrlen], Inr [LBoolean False, LInteger EINTR])
   \<and> (inet_pton4 (c_str ip) = Some a \<longrightarrow>
        eco_socket_connect inet_pton4 (Failed EINTR) fd ip port =
          ([SYS_connect (c_int fd)
              (SA_in \<lparr>sin_family = AF_INET, sin_port = htons (word_of_int port), sin_addr = a\<rparr>)
              sizeof_sockaddr_in],
           Inr [LBoolean False, LInteger EINTR]))"
  by (intro conjI impI; (elim conjE)?;
      ((rule accept_outcome send_outcome sendto_common_outcome recv_outcome recvfrom_outcome
          accept_forever send_forever sendto_common_again_forever recv_forever recvfrom_forever;
        assumption)
       | simp add: eco_socket_connect_common_def eco_socket_connect_def))

theorem eintr_retried_by_the_looping_operations_witness:
  "interrupted (interrupted_twice (Ok (7, SA_generic AF_UNSPEC, 2)) :: nat \<Rightarrow> (int \<times> sockaddr \<times> 32 word) sysres) 2
   \<and> eco_socket_accept sample_ntop4 sample_ntop6 (interrupted_twice (Ok (7, SA_generic AF_UNSPEC, 2))) 3 =
       Some ([SYS_accept4 3 (SOCK_NONBLOCK OR SOCK_CLOEXEC), SYS_accept4 3 (SOCK_NONBLOCK OR SOCK_CLOEXEC),
              SYS_accept4 3 (SOCK_NONBLOCK OR SOCK_CLOEXEC)],
             Inr [LInteger 7, LTable [(''family'', LInteger 0)]])
   \<and> eco_socket_accept sample_ntop4 sample_ntop6 (always (Failed EINTR)) 3 = None
   \<and> interrupted (interrupted_twice (Ok 4) :: nat \<Rightarrow> int sysres) 2
   \<and> eco_socket_send strerror_linux (interrupted_twice (Ok 4)) 3 ''ping'' None =
       Some ([SYS_send 3 ''ping'' 0, SYS_send 3 ''ping'' 0, SYS_send 3 ''ping'' 0], Inr [LInteger 4])
   \<and> eco_socket_send strerror_linux (always (Failed EINTR)) 3 ''ping'' None = None
   \<and> interrupted (interrupted_twice (Failed ECONNREFUSED) :: nat \<Rightarrow> int sysres) 2
   \<and> eco_socket_sendto_common strerror_linux (interrupted_twice (Failed ECONNREFUSED)) 3 ''ping''
         (SA_generic AF_UNSPEC) 2 0 [] =
       Some ([SYS_sendto 3 ''ping'' 0 (SA_generic AF_UNSPEC) 2, SYS_sendto 3 ''ping'' 0 (SA_generic AF_UNSPEC) 2,
              SYS_sendto 3 ''ping'' 0 (SA_generic AF_UNSPEC) 2],
             Inr [LNil, LString ''Connection refused''])
   \<and> eco_socket_sendto_common strerror_linux (always (Failed EINTR)) 3 ''ping''
         (SA_generic AF_UNSPEC) 2 0 [] = None
   \<and> (word_of_int 4 :: 64 word) \<noteq> 0 \<and> malloc_always (unat (word_of_int 4 :: 64 word))
   \<and> interrupted (interrupted_twice (Ok (2, ''pong'')) :: nat \<Rightarrow> (nat \<times> string) sysres) 2
   \<and> eco_socket_recv strerror_linux malloc_always (interrupted_twice (Ok (2, ''pong''))) 3 4 None =
       Some ([SYS_recv 3 4 0, SYS_recv 3 4 0, SYS_recv 3 4 0], Inr [LString ''po''])
   \<and> eco_socket_recv strerror_linux malloc_always (always (Failed EINTR)) 3 4 None = None
   \<and> interrupted (interrupted_twice (Ok (2, ''pong'', SA_generic AF_UNSPEC, 0))
        :: nat \<Rightarrow> (nat \<times> string \<times> sockaddr \<times> 32 word) sysres) 2
   \<and> eco_socket_recvfrom strerror_linux sample_ntop4 sample_ntop6 malloc_always
         (interrupted_twice (Ok (2, ''pong'', SA_generic AF_UNSPEC, 0))) 3 4 None =
       Some ([SYS_recvfrom 3 4 0, SYS_recvfrom 3 4 0, SYS_recvfrom 3 4 0], Inr [LString ''po''])
   \<and> eco_socket_recvfrom strerror_linux sample_ntop4 sample_ntop6 malloc_always
         (always (Failed EINTR)) 3 4 None = None
   \<and> sample_pton4 (c_str ''127.0.0.1'') = Some 0x0100007F
   \<and> eco_socket_connect sample_pton4 (Failed EINTR) 3 ''127.0.0.1'' 80 =
       ([SYS_connect 3 (SA_in \<lparr>sin_family = AF_INET, sin_port = 0x5000, sin_addr = 0x0100007F\<rparr>) 16],
        Inr [LBoolean False, LInteger 4])"
proof -
  note T = eintr_retried_by_the_looping_operations[where ?p4.0 = sample_ntop4 and ?p6.0 = sample_ntop6
      and lfd = 3 and se = strerror_linux and fd = 3 and data = "''ping''" and flags = None
      and addr = "SA_generic AF_UNSPEC" and addrlen = 2 and cflags = 0 and cfd = 3
      and max_length = 4 and malloc_ok = malloc_always and m = 2
      and ?inet_pton4.0 = sample_pton4 and ip = "''127.0.0.1''" and a = "0x0100007F" and port = 80
      and env_a = "interrupted_twice (Ok (7, SA_generic AF_UNSPEC, 2))"
      and env_s = "interrupted_twice (Ok 4)"
      and env_c = "interrupted_twice (Failed ECONNREFUSED)"
      and env_r = "interrupted_twice (Ok (2, ''pong''))"
      and env_f = "interrupted_twice (Ok (2, ''pong'', SA_generic AF_UNSPEC, 0))"]
  note N = eintr_retried_by_the_looping_operations[where ?p4.0 = sample_ntop4 and ?p6.0 = sample_ntop6
      and lfd = 3 and se = strerror_linux and fd = 3 and data = "''ping''" and flags = None
      and addr = "SA_generic AF_UNSPEC" and addrlen = 2 and cflags = 0 and cfd = 3
      and max_length = 4 and malloc_ok = malloc_always
      and env_a = "always (Failed EINTR)" and env_s = "always (Failed EINTR)"
      and env_c = "always (Failed EINTR)" and env_r = "always (Failed EINTR)"
      and env_f = "always (Failed EINTR)"]
  have sz: "(word_of_int 4 :: 64 word) \<noteq> 0" "malloc_always (unat (word_of_int 4 :: 64 word))"
    "unat (word_of_int 4 :: 64 word) = 4"
    by (simp_all add: malloc_always_def)
  have ne: "ECONNREFUSED \<noteq> EINTR" "ECONNREFUSED \<noteq> EPIPE"
    by (simp_all add: ECONNREFUSED_def EINTR_def EPIPE_def)
  have ia: "interrupted (interrupted_twice (Ok (7, SA_generic AF_UNSPEC, 2)) :: nat \<Rightarrow> (int \<times> sockaddr \<times> 32 word) sysres) 2"
    and isn: "interrupted (interrupted_twice (Ok 4) :: nat \<Rightarrow> int sysres) 2"
    and ic: "interrupted (interrupted_twice (Failed ECONNREFUSED) :: nat \<Rightarrow> int sysres) 2"
    and ir: "interrupted (interrupted_twice (Ok (2, ''pong'')) :: nat \<Rightarrow> (nat \<times> string) sysres) 2"
    and ifr: "interrupted (interrupted_twice (Ok (2, ''pong'', SA_generic AF_UNSPEC, 0))
        :: nat \<Rightarrow> (nat \<times> string \<times> sockaddr \<times> 32 word) sysres) 2"
    by (simp_all add: interrupted_twice_interrupted ne)
  have v: "\<And>r :: 'a sysres. interrupted_twice r 2 = r"
    by (simp add: interrupted_twice_def)
  have msg: "strerror_linux ECONNREFUSED = ''Connection refused''"
    by (simp add: strerror_linux_def ECONNREFUSED_def)
  have opt: "luaL_optinteger None 0 = 0"
    by (simp add: luaL_optinteger_def)
  have pt: "sample_pton4 (c_str ''127.0.0.1'') = Some 0x0100007F"
    by (simp add: sample_pton4_def c_str_def)
  have port: "htons 80 = 0x5000" "sizeof_sockaddr_in = 16" "EINTR = 4"
    by (simp_all add: htons_def sizeof_sockaddr_in_def EINTR_def)
  from T ia have a1: "eco_socket_accept sample_ntop4 sample_ntop6 (interrupted_twice (Ok (7, SA_generic AF_UNSPEC, 2))) 3 =
       Some ([SYS_accept4 3 (SOCK_NONBLOCK OR SOCK_CLOEXEC), SYS_accept4 3 (SOCK_NONBLOCK OR SOCK_CLOEXEC),
              SYS_accept4 3 (SOCK_NONBLOCK OR SOCK_CLOEXEC)],
             Inr [LInteger 7, LTable [(''family'', LInteger 0)]])"
    by (simp add: v c_int_samples push_socket_addr_unspec replicate_three)
  from T isn have s1: "eco_socket_send strerror_linux (interrupted_twice (Ok 4)) 3 ''ping'' None =
       Some ([SYS_send 3 ''ping'' 0, SYS_send 3 ''ping'' 0, SYS_send 3 ''ping'' 0], Inr [LInteger 4])"
    by (simp add: v opt c_int_samples replicate_three)
  from T ic have c1: "eco_socket_sendto_common strerror_linux (interrupted_twice (Failed ECONNREFUSED)) 3 ''ping''
         (SA_generic AF_UNSPEC) 2 0 [] =
       Some ([SYS_sendto 3 ''ping'' 0 (SA_generic AF_UNSPEC) 2, SYS_sendto 3 ''ping'' 0 (SA_generic AF_UNSPEC) 2,
              SYS_sendto 3 ''ping'' 0 (SA_generic AF_UNSPEC) 2],
             Inr [LNil, LString ''Connection refused''])"
    by (simp add: v msg replicate_three)
  from T ir sz have r1: "eco_socket_recv strerror_linux malloc_always (interrupted_twice (Ok (2, ''pong''))) 3 4 None =
       Some ([SYS_recv 3 4 0, SYS_recv 3 4 0, SYS_recv 3 4 0], Inr [LString ''po''])"
    by (simp add: v opt c_int_samples replicate_three)
  from T ifr sz have f1: "eco_socket_recvfrom strerror_linux sample_ntop4 sample_ntop6 malloc_always
         (interrupted_twice (Ok (2, ''pong'', SA_generic AF_UNSPEC, 0))) 3 4 None =
       Some ([SYS_recvfrom 3 4 0, SYS_recvfrom 3 4 0, SYS_recvfrom 3 4 0], Inr [LString ''po''])"
    by (simp add: v opt c_int_samples replicate_three)
  from T pt have k1: "eco_socket_connect sample_pton4 (Failed EINTR) 3 ''127.0.0.1'' 80 =
       ([SYS_connect 3 (SA_in \<lparr>sin_family = AF_INET, sin_port = 0x5000, sin_addr = 0x0100007F\<rparr>) 16],
        Inr [LBoolean False, LInteger 4])"
    by (simp add: port c_int_samples)
  from N sz always_interrupted[where 'a = "int \<times> sockaddr \<times> 32 word"]
  have a2: "eco_socket_accept sample_ntop4 sample_ntop6 (always (Failed EINTR)) 3 = None"
    by blast
  from N always_interrupted[where 'a = int]
  have s2: "eco_socket_send strerror_linux (always (Failed EINTR)) 3 ''ping'' None = None"
    and c2: "eco_socket_sendto_common strerror_linux (always (Failed EINTR)) 3 ''ping''
         (SA_generic AF_UNSPEC) 2 0 [] = None"
    by blast+
  from N sz always_interrupted[where 'a = "nat \<times> string"]
  have r2: "eco_socket_recv strerror_linux malloc_always (always (Failed EINTR)) 3 4 None = None"
    by blast
  from N sz always_interrupted[where 'a = "nat \<times> string \<times> sockaddr \<times> 32 word"]
  have f2: "eco_socket_recvfrom strerror_linux sample_ntop4 sample_ntop6 malloc_always
         (always (Failed EINTR)) 3 4 None = None"
    by blast
  from ia a1 a2 isn s1 s2 ic c1 c2 sz(1,2) ir r1 r2 ifr f1 f2 pt k1 show ?thesis
    by blast
qed

text \<open>
  C4 as stated fails for connect: a connect to a TCP address whose call is interrupted
  issues the call once and reports \<^verbatim>\<open>false\<close> and \<^verbatim>\<open>EINTR\<close>, which is 4.
\<close>

theorem connect_surfaces_eintr_counterexample:
  "eco_socket_connect sample_pton4 (Failed EINTR) 3 ''127.0.0.1'' 80 =
     ([SYS_connect 3 (SA_in \<lparr>sin_family = AF_INET, sin_port = 0x5000, sin_addr = 0x0100007F\<rparr>) 16],
      Inr [LBoolean False, LInteger 4])
   \<and> eco_socket_connect_common (Failed EINTR) 3 (SA_generic AF_UNSPEC) 2 =
     ([SYS_connect 3 (SA_generic AF_UNSPEC) 2], Inr [LBoolean False, LInteger 4])
   \<and> EINTR = 4"
  by (simp add: eco_socket_connect_def eco_socket_connect_common_def sample_pton4_def c_str_def
      htons_def sizeof_sockaddr_in_def EINTR_def c_int_def)

subsection \<open>Descriptor flags\<close>

lemma nonblock_cloexec_bits:
  "((t::32 word) OR SOCK_NONBLOCK OR SOCK_CLOEXEC) AND SOCK_NONBLOCK = SOCK_NONBLOCK"
  "((t::32 word) OR SOCK_NONBLOCK OR SOCK_CLOEXEC) AND SOCK_CLOEXEC = SOCK_CLOEXEC"
  "(SOCK_NONBLOCK OR SOCK_CLOEXEC) AND SOCK_NONBLOCK = SOCK_NONBLOCK"
  "(SOCK_NONBLOCK OR SOCK_CLOEXEC) AND SOCK_CLOEXEC = SOCK_CLOEXEC"
  by (rule bit_word_eqI; auto simp: bit_simps)+

lemma accept_returns:
  assumes "eco_socket_accept p4 p6 env lfd = Some (tr, res)"
  shows "\<exists>m. interrupted env m
           \<and> tr = replicate (Suc m) (SYS_accept4 (c_int lfd) (SOCK_NONBLOCK OR SOCK_CLOEXEC))
           \<and> res = (case env m of
                      Failed errno \<Rightarrow> Inr [LNil, LInteger errno]
                    | Ok (fd, addr, addrlen) \<Rightarrow>
                        (case push_socket_addr p4 p6 addr addrlen of
                           Inl e \<Rightarrow> Inl e
                         | Inr t \<Rightarrow> Inr [LInteger fd, t]))"
proof -
  from assms have "eco_socket_accept_again p4 p6 env (c_int lfd) [] = Some (tr, res)"
    by (simp add: eco_socket_accept_def)
  from accept_again_returns[OF this]
  obtain m where "\<forall>k<m. env k = Failed EINTR" and "env m \<noteq> Failed EINTR"
    by auto
  then have i: "interrupted env m"
    by (simp add: interrupted_def)
  from accept_outcome[OF i, of p4 p6 lfd] assms i show ?thesis
    by auto
qed

text \<open>
  C3. Create issues one system call, \<^verbatim>\<open>socket\<close> with the non-blocking and the
  close-on-exec flag in its type argument, and the descriptor it returns is the one that
  call answered; when the call fails it returns no descriptor. Accept issues \<^verbatim>\<open>accept4\<close>
  with both flags in its flags argument, once for every interrupted call and once more, and
  nothing else; the descriptor it returns is the one the last of these calls answered, and
  it returns a descriptor in no other case. So every descriptor returned was created by a
  call that asked for both flags, and no later call sets them.
\<close>

theorem nonblock_cloexec_requested:
  "eco_socket_socket (Ok fd) domain type protocol =
     ([SYS_socket (c_int domain) (word_of_int type OR SOCK_NONBLOCK OR SOCK_CLOEXEC) (c_int protocol)],
      Inr [LInteger fd])
   \<and> eco_socket_socket (Failed e) domain type protocol =
     ([SYS_socket (c_int domain) (word_of_int type OR SOCK_NONBLOCK OR SOCK_CLOEXEC) (c_int protocol)],
      Inr [LNil, LInteger e])
   \<and> (word_of_int type OR SOCK_NONBLOCK OR SOCK_CLOEXEC) AND SOCK_NONBLOCK = SOCK_NONBLOCK
   \<and> (word_of_int type OR SOCK_NONBLOCK OR SOCK_CLOEXEC) AND SOCK_CLOEXEC = SOCK_CLOEXEC
   \<and> (interrupted env m \<and> env m = Ok (afd, addr, addrlen)
        \<and> push_socket_addr p4 p6 addr addrlen = Inr t \<longrightarrow>
      eco_socket_accept p4 p6 env lfd =
        Some (replicate (Suc m) (SYS_accept4 (c_int lfd) (SOCK_NONBLOCK OR SOCK_CLOEXEC)),
              Inr [LInteger afd, t]))
   \<and> (eco_socket_accept p4 p6 env' lfd = Some (tr, res) \<longrightarrow>
      (\<exists>n. interrupted env' n
         \<and> tr = replicate (Suc n) (SYS_accept4 (c_int lfd) (SOCK_NONBLOCK OR SOCK_CLOEXEC))
         \<and> res = (case env' n of
                    Failed errno \<Rightarrow> Inr [LNil, LInteger errno]
                  | Ok (fd', addr', addrlen') \<Rightarrow>
                      (case push_socket_addr p4 p6 addr' addrlen' of
                         Inl e \<Rightarrow> Inl e
                       | Inr t \<Rightarrow> Inr [LInteger fd', t]))))
   \<and> (eco_socket_accept p4 p6 env' lfd = Some (tr, Inr [LInteger rfd, rt]) \<longrightarrow>
      (\<exists>n addr' addrlen'. interrupted env' n
         \<and> tr = replicate (Suc n) (SYS_accept4 (c_int lfd) (SOCK_NONBLOCK OR SOCK_CLOEXEC))
         \<and> env' n = Ok (rfd, addr', addrlen')))
   \<and> (SOCK_NONBLOCK OR SOCK_CLOEXEC) AND SOCK_NONBLOCK = SOCK_NONBLOCK
   \<and> (SOCK_NONBLOCK OR SOCK_CLOEXEC) AND SOCK_CLOEXEC = SOCK_CLOEXEC
   \<and> SOCK_NONBLOCK \<noteq> 0 \<and> SOCK_CLOEXEC \<noteq> 0"
proof (intro conjI impI)
  show "eco_socket_socket (Ok fd) domain type protocol =
     ([SYS_socket (c_int domain) (word_of_int type OR SOCK_NONBLOCK OR SOCK_CLOEXEC) (c_int protocol)],
      Inr [LInteger fd])"
    and "eco_socket_socket (Failed e) domain type protocol =
     ([SYS_socket (c_int domain) (word_of_int type OR SOCK_NONBLOCK OR SOCK_CLOEXEC) (c_int protocol)],
      Inr [LNil, LInteger e])"
    by (simp_all add: eco_socket_socket_def)
  show "(word_of_int type OR SOCK_NONBLOCK OR SOCK_CLOEXEC) AND SOCK_NONBLOCK = SOCK_NONBLOCK"
    and "(word_of_int type OR SOCK_NONBLOCK OR SOCK_CLOEXEC) AND SOCK_CLOEXEC = SOCK_CLOEXEC"
    and "(SOCK_NONBLOCK OR SOCK_CLOEXEC) AND SOCK_NONBLOCK = SOCK_NONBLOCK"
    and "(SOCK_NONBLOCK OR SOCK_CLOEXEC) AND SOCK_CLOEXEC = SOCK_CLOEXEC"
    by (rule nonblock_cloexec_bits)+
  show "SOCK_NONBLOCK \<noteq> 0" and "SOCK_CLOEXEC \<noteq> 0"
    by (simp_all add: SOCK_NONBLOCK_def SOCK_CLOEXEC_def)
next
  assume "interrupted env m \<and> env m = Ok (afd, addr, addrlen)
        \<and> push_socket_addr p4 p6 addr addrlen = Inr t"
  with accept_outcome[of env m p4 p6 lfd]
  show "eco_socket_accept p4 p6 env lfd =
        Some (replicate (Suc m) (SYS_accept4 (c_int lfd) (SOCK_NONBLOCK OR SOCK_CLOEXEC)),
              Inr [LInteger afd, t])"
    by simp
next
  assume "eco_socket_accept p4 p6 env' lfd = Some (tr, res)"
  then show "\<exists>n. interrupted env' n
         \<and> tr = replicate (Suc n) (SYS_accept4 (c_int lfd) (SOCK_NONBLOCK OR SOCK_CLOEXEC))
         \<and> res = (case env' n of
                    Failed errno \<Rightarrow> Inr [LNil, LInteger errno]
                  | Ok (fd', addr', addrlen') \<Rightarrow>
                      (case push_socket_addr p4 p6 addr' addrlen' of
                         Inl e \<Rightarrow> Inl e
                       | Inr t \<Rightarrow> Inr [LInteger fd', t]))"
    by (rule accept_returns)
next
  assume "eco_socket_accept p4 p6 env' lfd = Some (tr, Inr [LInteger rfd, rt])"
  from accept_returns[OF this] obtain n where n: "interrupted env' n"
    "tr = replicate (Suc n) (SYS_accept4 (c_int lfd) (SOCK_NONBLOCK OR SOCK_CLOEXEC))"
    "Inr [LInteger rfd, rt] = (case env' n of
                    Failed errno \<Rightarrow> Inr [LNil, LInteger errno]
                  | Ok (fd', addr', addrlen') \<Rightarrow>
                      (case push_socket_addr p4 p6 addr' addrlen' of
                         Inl e \<Rightarrow> (Inl e :: lua_ret)
                       | Inr t \<Rightarrow> Inr [LInteger fd', t]))"
    by blast
  from n(3) obtain addr' addrlen' where "env' n = Ok (rfd, addr', addrlen')"
    by (auto split: sysres.splits prod.splits sum.splits)
  with n(1,2) show "\<exists>n addr' addrlen'. interrupted env' n
         \<and> tr = replicate (Suc n) (SYS_accept4 (c_int lfd) (SOCK_NONBLOCK OR SOCK_CLOEXEC))
         \<and> env' n = Ok (rfd, addr', addrlen')"
    by blast
qed

theorem nonblock_cloexec_requested_witness:
  "interrupted (interrupted_twice (Ok (7, SA_generic AF_UNSPEC, 2)) :: nat \<Rightarrow> (int \<times> sockaddr \<times> 32 word) sysres) 2
   \<and> interrupted_twice (Ok (7::int, SA_generic AF_UNSPEC, 2::32 word)) 2 = Ok (7, SA_generic AF_UNSPEC, 2)
   \<and> push_socket_addr sample_ntop4 sample_ntop6 (SA_generic AF_UNSPEC) 2 =
       Inr (LTable [(''family'', LInteger 0)])
   \<and> eco_socket_accept sample_ntop4 sample_ntop6 (interrupted_twice (Ok (7, SA_generic AF_UNSPEC, 2))) 3 =
       Some ([SYS_accept4 3 0x80800, SYS_accept4 3 0x80800, SYS_accept4 3 0x80800],
             Inr [LInteger 7, LTable [(''family'', LInteger 0)]])
   \<and> (0x80800 :: 32 word) AND SOCK_NONBLOCK = SOCK_NONBLOCK
   \<and> (0x80800 :: 32 word) AND SOCK_CLOEXEC = SOCK_CLOEXEC
   \<and> eco_socket_socket (Ok 5) 2 1 0 = ([SYS_socket 2 0x80801 0], Inr [LInteger 5])
   \<and> (0x80801 :: 32 word) AND SOCK_NONBLOCK = SOCK_NONBLOCK
   \<and> (0x80801 :: 32 word) AND SOCK_CLOEXEC = SOCK_CLOEXEC"
proof -
  note T = nonblock_cloexec_requested[where fd = 5 and domain = 2 and type = 1 and protocol = 0
      and ?p4.0 = sample_ntop4 and ?p6.0 = sample_ntop6 and lfd = 3 and m = 2
      and env = "interrupted_twice (Ok (7, SA_generic AF_UNSPEC, 2))"
      and env' = "interrupted_twice (Ok (7, SA_generic AF_UNSPEC, 2))"
      and afd = 7 and addr = "SA_generic AF_UNSPEC" and addrlen = 2
      and t = "LTable [(''family'', LInteger 0)]"
      and tr = "[SYS_accept4 3 0x80800, SYS_accept4 3 0x80800, SYS_accept4 3 0x80800]"
      and rfd = 7 and rt = "LTable [(''family'', LInteger 0)]"]
  have ia: "interrupted (interrupted_twice (Ok (7, SA_generic AF_UNSPEC, 2)) :: nat \<Rightarrow> (int \<times> sockaddr \<times> 32 word) sysres) 2"
    by (simp add: interrupted_twice_interrupted)
  have v: "interrupted_twice (Ok (7::int, SA_generic AF_UNSPEC, 2::32 word)) 2 = Ok (7, SA_generic AF_UNSPEC, 2)"
    by (simp add: interrupted_twice_def)
  have ci: "c_int 2 = 2"
    by (simp add: c_int_def)
  from T ia v push_socket_addr_unspec[of sample_ntop4 sample_ntop6 2]
  have run: "eco_socket_accept sample_ntop4 sample_ntop6 (interrupted_twice (Ok (7, SA_generic AF_UNSPEC, 2))) 3 =
       Some ([SYS_accept4 3 0x80800, SYS_accept4 3 0x80800, SYS_accept4 3 0x80800],
             Inr [LInteger 7, LTable [(''family'', LInteger 0)]])"
    by (simp add: SOCK_NONBLOCK_def SOCK_CLOEXEC_def c_int_samples replicate_three)
  from T have create: "eco_socket_socket (Ok 5) 2 1 0 = ([SYS_socket 2 0x80801 0], Inr [LInteger 5])"
    by (simp add: SOCK_NONBLOCK_def SOCK_CLOEXEC_def ci c_int_samples)
  have bits: "(0x80800 :: 32 word) AND SOCK_NONBLOCK = SOCK_NONBLOCK"
    "(0x80800 :: 32 word) AND SOCK_CLOEXEC = SOCK_CLOEXEC"
    "(0x80801 :: 32 word) AND SOCK_NONBLOCK = SOCK_NONBLOCK"
    "(0x80801 :: 32 word) AND SOCK_CLOEXEC = SOCK_CLOEXEC"
    by (simp_all add: SOCK_NONBLOCK_def SOCK_CLOEXEC_def)
  from ia v push_socket_addr_unspec[of sample_ntop4 sample_ntop6 2] run bits create show ?thesis
    by blast
qed

subsection \<open>Broken pipe\<close>

text \<open>
  C2. A send that fails with \<^verbatim>\<open>EPIPE\<close> reports the string \<^verbatim>\<open>closed\<close>. The send_to
  path does not: \<^verbatim>\<open>eco_socket_sendto_common\<close> reports \<^verbatim>\<open>strerror(EPIPE)\<close>, the
  platform's message, as for every other error.
\<close>

theorem broken_pipe_send_closed_sendto_message:
  "eco_socket_send strerror (\<lambda>_. Failed EPIPE) fd data flags =
     Some ([SYS_send (c_int fd) data (c_int (luaL_optinteger flags 0))], Inr [LNil, LString ''closed''])
   \<and> eco_socket_sendto_common strerror (\<lambda>_. Failed EPIPE) fd data addr addrlen flags' [] =
     Some ([SYS_sendto fd data flags' addr addrlen], Inr [LNil, LString (strerror EPIPE)])
   \<and> eco_socket_sendto_common strerror_linux (always (Failed EPIPE)) fd data addr addrlen flags' [] =
     Some ([SYS_sendto fd data flags' addr addrlen], Inr [LNil, LString ''Broken pipe''])"
  by (simp add: eco_socket_send_def eco_socket_send_again.simps eco_socket_sendto_common.simps
      EPIPE_def EINTR_def always_def strerror_linux_def)

subsection \<open>How a failure is reported\<close>

lemma accept_fails:
  assumes "interrupted env m" and "env m = Failed e"
  shows "eco_socket_accept p4 p6 env lfd =
         Some (replicate (Suc m) (SYS_accept4 (c_int lfd) (SOCK_NONBLOCK OR SOCK_CLOEXEC)),
               Inr [LNil, LInteger e])"
  using accept_outcome[OF assms(1), of p4 p6 lfd] assms(2) by simp

lemma send_fails:
  assumes "interrupted env m" and "env m = Failed e"
  shows "eco_socket_send se env fd data flags =
         Some (replicate (Suc m) (SYS_send (c_int fd) data (c_int (luaL_optinteger flags 0))),
               Inr [LNil, if e = EPIPE then LString ''closed'' else LString (se e)])"
  using send_outcome[OF assms(1), of se fd data flags] assms(2) by simp

lemma sendto_common_fails:
  assumes "interrupted env m" and "env m = Failed e"
  shows "eco_socket_sendto_common se env fd data addr addrlen flags [] =
         Some (replicate (Suc m) (SYS_sendto fd data flags addr addrlen), Inr [LNil, LString (se e)])"
  using sendto_common_outcome[OF assms(1), of se fd data addr addrlen flags] assms(2) by simp

lemma recv_fails:
  assumes "interrupted env m" and "env m = Failed e"
    and "(word_of_int max_length :: 64 word) \<noteq> 0"
    and "malloc_ok (unat (word_of_int max_length :: 64 word))"
  shows "eco_socket_recv se malloc_ok env fd max_length flags =
         Some (replicate (Suc m)
                 (SYS_recv (c_int fd) (unat (word_of_int max_length :: 64 word))
                    (c_int (luaL_optinteger flags 0))),
               Inr [LNil, LString (se e)])"
proof -
  from assms(1,3,4)
  have "eco_socket_recv se malloc_ok env fd max_length flags =
         Some (replicate (Suc m)
                 (SYS_recv (c_int fd) (unat (word_of_int max_length :: 64 word))
                    (c_int (luaL_optinteger flags 0))),
               case env m of
                 Failed errno \<Rightarrow> Inr [LNil, LString (se errno)]
               | Ok (ret, buf) \<Rightarrow>
                   if ret \<le> unat (word_of_int max_length :: 64 word)
                   then Inr [LString (take ret buf)] else Inl OutOfBounds)"
    by (rule recv_outcome)
  with assms(2) show ?thesis
    by simp
qed

lemma recvfrom_fails:
  assumes "interrupted env m" and "env m = Failed e"
    and "(word_of_int max_length :: 64 word) \<noteq> 0"
    and "malloc_ok (unat (word_of_int max_length :: 64 word))"
  shows "eco_socket_recvfrom se p4 p6 malloc_ok env fd max_length flags =
         Some (replicate (Suc m)
                 (SYS_recvfrom (c_int fd) (unat (word_of_int max_length :: 64 word))
                    (c_int (luaL_optinteger flags 0))),
               Inr [LNil, LString (se e)])"
proof -
  from assms(1,3,4)
  have "eco_socket_recvfrom se p4 p6 malloc_ok env fd max_length flags =
         Some (replicate (Suc m)
                 (SYS_recvfrom (c_int fd) (unat (word_of_int max_length :: 64 word))
                    (c_int (luaL_optinteger flags 0))),
               case env m of
                 Failed errno \<Rightarrow> Inr [LNil, LString (se errno)]
               | Ok (ret, buf, addr, addrlen) \<Rightarrow>
                   if ret \<le> unat (word_of_int max_length :: 64 word) then
                     (if addrlen \<noteq> 0 then
                        (case push_socket_addr p4 p6 addr addrlen of
                           Inl e \<Rightarrow> Inl e
                         | Inr t \<Rightarrow> Inr [LString (take ret buf), t])
                      else Inr [LString (take ret buf)])
                   else Inl OutOfBounds)"
    by (rule recvfrom_outcome)
  with assms(2) show ?thesis
    by simp
qed

text \<open>
  C5, as amended. A failure of the system call (other than \<^verbatim>\<open>EINTR\<close> where the
  operation retries) reaches the caller as the raw \<^verbatim>\<open>errno\<close> integer from create, bind,
  listen, connect and accept, and as the text \<^verbatim>\<open>strerror(errno)\<close> from send (which maps
  \<^verbatim>\<open>EPIPE\<close> to \<^verbatim>\<open>closed\<close>), send_to (errors other than \<^verbatim>\<open>EPIPE\<close>), receive,
  receive_from, the local and peer address queries and the option getters and setters; the
  \<^verbatim>\<open>error\<close> option returns the \<^verbatim>\<open>errno\<close> of a failed query as its value.
\<close>

theorem failure_reports:
  "snd (eco_socket_socket (Failed e) domain type protocol) = Inr [LNil, LInteger e]
   \<and> snd (eco_socket_bind_common (Failed e) fd addr addrlen) = Inr [LBoolean False, LInteger e]
   \<and> snd (eco_socket_listen (Failed e) fd backlog) = Inr [LBoolean False, LInteger e]
   \<and> snd (eco_socket_connect_common (Failed e) fd addr addrlen) = Inr [LBoolean False, LInteger e]
   \<and> (interrupted env_a m \<and> env_a m = Failed e \<longrightarrow>
        eco_socket_accept p4 p6 env_a fd =
        Some (replicate (Suc m) (SYS_accept4 (c_int fd) (SOCK_NONBLOCK OR SOCK_CLOEXEC)), Inr [LNil, LInteger e]))
   \<and> (interrupted env_s m \<and> env_s m = Failed e \<longrightarrow>
        eco_socket_send se env_s fd data flags =
        Some (replicate (Suc m) (SYS_send (c_int fd) data (c_int (luaL_optinteger flags 0))),
              Inr [LNil, if e = EPIPE then LString ''closed'' else LString (se e)]))
   \<and> (interrupted env_s m \<and> env_s m = Failed e \<and> e \<noteq> EPIPE \<longrightarrow>
        eco_socket_sendto_common se env_s fd data addr addrlen cflags [] =
        Some (replicate (Suc m) (SYS_sendto fd data cflags addr addrlen), Inr [LNil, LString (se e)]))
   \<and> (interrupted env_r m \<and> env_r m = Failed e \<and> (word_of_int max_length :: 64 word) \<noteq> 0
        \<and> malloc_ok (unat (word_of_int max_length :: 64 word)) \<longrightarrow>
        eco_socket_recv se malloc_ok env_r fd max_length flags =
        Some (replicate (Suc m)
                (SYS_recv (c_int fd) (unat (word_of_int max_length :: 64 word))
                   (c_int (luaL_optinteger flags 0))),
              Inr [LNil, LString (se e)]))
   \<and> (interrupted env_f m \<and> env_f m = Failed e \<and> (word_of_int max_length :: 64 word) \<noteq> 0
        \<and> malloc_ok (unat (word_of_int max_length :: 64 word)) \<longrightarrow>
        eco_socket_recvfrom se p4 p6 malloc_ok env_f fd max_length flags =
        Some (replicate (Suc m)
                (SYS_recvfrom (c_int fd) (unat (word_of_int max_length :: 64 word))
                   (c_int (luaL_optinteger flags 0))),
              Inr [LNil, LString (se e)]))
   \<and> snd (eco_socket_getsockname se p4 p6 (Failed e) fd) = Inr [LNil, LString (se e)]
   \<and> snd (eco_socket_getpeername se p4 p6 (Failed e) fd) = Inr [LNil, LString (se e)]
   \<and> snd (opt_getboolean se (Failed e) fd level name) = Inr [LNil, LString (se e)]
   \<and> snd (opt_set se (Failed e) fd level name val) = Inr [LBoolean False, LString (se e)]
   \<and> snd (opt_get_error se (Failed e) fd) = Inr [LInteger e]"
  by (intro conjI impI; (elim conjE)?;
      ((rule accept_fails send_fails sendto_common_fails recv_fails recvfrom_fails; assumption)
       | simp add: eco_socket_socket_def eco_socket_bind_common_def eco_socket_listen_def
           eco_socket_connect_common_def eco_socket_getsockname_def eco_socket_getpeername_def
           opt_getboolean_def opt_set_def opt_get_error_def))

theorem failure_reports_witness:
  "interrupted (interrupted_twice (Failed ECONNRESET) :: nat \<Rightarrow> (int \<times> sockaddr \<times> 32 word) sysres) 2
   \<and> eco_socket_accept sample_ntop4 sample_ntop6 (interrupted_twice (Failed ECONNRESET)) 3 =
        Some (replicate 3 (SYS_accept4 3 (SOCK_NONBLOCK OR SOCK_CLOEXEC)), Inr [LNil, LInteger ECONNRESET])
   \<and> interrupted (interrupted_twice (Failed ECONNRESET) :: nat \<Rightarrow> int sysres) 2
   \<and> eco_socket_send strerror_linux (interrupted_twice (Failed ECONNRESET)) 3 ''ping'' None =
        Some (replicate 3 (SYS_send 3 ''ping'' 0), Inr [LNil, LString ''Connection reset by peer''])
   \<and> ECONNRESET \<noteq> EPIPE
   \<and> eco_socket_sendto_common strerror_linux (interrupted_twice (Failed ECONNRESET)) 3 ''ping''
        (SA_generic AF_UNSPEC) 2 0 [] =
        Some (replicate 3 (SYS_sendto 3 ''ping'' 0 (SA_generic AF_UNSPEC) 2),
              Inr [LNil, LString ''Connection reset by peer''])
   \<and> interrupted (interrupted_twice (Failed ECONNRESET) :: nat \<Rightarrow> (nat \<times> string) sysres) 2
   \<and> (word_of_int 4 :: 64 word) \<noteq> 0 \<and> malloc_always (unat (word_of_int 4 :: 64 word))
   \<and> eco_socket_recv strerror_linux malloc_always (interrupted_twice (Failed ECONNRESET)) 3 4 None =
        Some (replicate 3 (SYS_recv 3 4 0), Inr [LNil, LString ''Connection reset by peer''])
   \<and> interrupted (interrupted_twice (Failed ECONNRESET)
        :: nat \<Rightarrow> (nat \<times> string \<times> sockaddr \<times> 32 word) sysres) 2
   \<and> eco_socket_recvfrom strerror_linux sample_ntop4 sample_ntop6 malloc_always
        (interrupted_twice (Failed ECONNRESET)) 3 4 None =
        Some (replicate 3 (SYS_recvfrom 3 4 0), Inr [LNil, LString ''Connection reset by peer''])"
proof -
  have ne: "ECONNRESET \<noteq> EINTR" "ECONNRESET \<noteq> EPIPE"
    by (simp_all add: ECONNRESET_def EPIPE_def EINTR_def)
  have ia: "interrupted (interrupted_twice (Failed ECONNRESET) :: nat \<Rightarrow> (int \<times> sockaddr \<times> 32 word) sysres) 2"
    and isn: "interrupted (interrupted_twice (Failed ECONNRESET) :: nat \<Rightarrow> int sysres) 2"
    and ir: "interrupted (interrupted_twice (Failed ECONNRESET) :: nat \<Rightarrow> (nat \<times> string) sysres) 2"
    and ifr: "interrupted (interrupted_twice (Failed ECONNRESET)
        :: nat \<Rightarrow> (nat \<times> string \<times> sockaddr \<times> 32 word) sysres) 2"
    by (simp_all add: interrupted_twice_interrupted ne)
  have v: "\<And>r :: 'a sysres. interrupted_twice r 2 = r"
    by (simp add: interrupted_twice_def)
  have sz: "(word_of_int 4 :: 64 word) \<noteq> 0" "malloc_always (unat (word_of_int 4 :: 64 word))"
    "unat (word_of_int 4 :: 64 word) = 4"
    by (simp_all add: malloc_always_def)
  have msg: "strerror_linux ECONNRESET = ''Connection reset by peer''"
    by (simp add: strerror_linux_def ECONNRESET_def)
  have three: "Suc 2 = 3"
    by simp
  from failure_reports[where e = ECONNRESET and m = 2
      and env_a = "interrupted_twice (Failed ECONNRESET)"
      and env_s = "interrupted_twice (Failed ECONNRESET)"
      and env_r = "interrupted_twice (Failed ECONNRESET)"
      and env_f = "interrupted_twice (Failed ECONNRESET)"
      and ?p4.0 = sample_ntop4 and ?p6.0 = sample_ntop6 and se = strerror_linux and fd = 3
      and data = "''ping''" and flags = None and addr = "SA_generic AF_UNSPEC" and addrlen = 2
      and cflags = 0 and max_length = 4 and malloc_ok = malloc_always]
  show ?thesis
    unfolding v msg three sz(3)
    by (simp only: ia isn ir ifr ne sz malloc_always_def luaL_optinteger_def option.case simp_thms if_False
        c_int_samples)
qed

text \<open>
  C5 as stated fails: a receive whose call fails with \<^verbatim>\<open>ECONNRESET\<close> reports the
  message text, not the error number.
\<close>

theorem recv_failure_is_a_message_counterexample:
  "eco_socket_recv strerror_linux malloc_always (always (Failed ECONNRESET)) 3 16 None =
     Some ([SYS_recv 3 16 0], Inr [LNil, LString ''Connection reset by peer''])
   \<and> LString ''Connection reset by peer'' \<noteq> LInteger ECONNRESET"
  by (simp add: eco_socket_recv_def eco_socket_recv_again.simps always_def malloc_always_def
      luaL_optinteger_def strerror_linux_def ECONNRESET_def EINTR_def c_int_def)

subsection \<open>Connect in progress\<close>

text \<open>
  C6, as amended. A connect whose call fails reports \<^verbatim>\<open>false\<close> and the raw
  \<^verbatim>\<open>errno\<close>, whatever the error; \<^verbatim>\<open>EINPROGRESS\<close> is reported in the same way, and the
  caller tells it from a genuine failure by the error number only.
\<close>

theorem connect_in_progress_is_reported_as_failure:
  "snd (eco_socket_connect_common (Failed e) fd addr addrlen) = Inr [LBoolean False, LInteger e]
   \<and> snd (eco_socket_connect_common (Failed EINPROGRESS) fd addr addrlen) =
       Inr [LBoolean False, LInteger EINPROGRESS]
   \<and> snd (eco_socket_connect_nl (Failed EINPROGRESS) fd pid) = Inr [LBoolean False, LInteger EINPROGRESS]"
  by (simp add: eco_socket_connect_common_def eco_socket_connect_nl_def)

text \<open>
  C6 as stated fails: in progress and connection refused give results of one shape, with
  the primary value \<^verbatim>\<open>false\<close>, that differ in the error number alone.
\<close>

theorem connect_in_progress_counterexample:
  "snd (eco_socket_connect_nl (Failed EINPROGRESS) 3 0) = Inr [LBoolean False, LInteger 115]
   \<and> snd (eco_socket_connect_nl (Failed ECONNREFUSED) 3 0) = Inr [LBoolean False, LInteger 111]
   \<and> snd (eco_socket_connect sample_pton4 (Failed EINPROGRESS) 3 ''127.0.0.1'' 80) =
       Inr [LBoolean False, LInteger 115]
   \<and> snd (eco_socket_connect sample_pton4 (Failed ECONNREFUSED) 3 ''127.0.0.1'' 80) =
       Inr [LBoolean False, LInteger 111]"
  by (simp add: eco_socket_connect_common_def eco_socket_connect_nl_def eco_socket_connect_def
      sample_pton4_def c_str_def EINPROGRESS_def ECONNREFUSED_def)

subsection \<open>C strings in buffers\<close>

lemma c_str_idem: "c_str (c_str s) = c_str s"
  by (simp add: c_str_def)

lemma c_str_no_NUL: "NUL \<notin> set s \<Longrightarrow> c_str s = s"
  by (auto simp: c_str_def)

lemma c_str_padded: "c_str (c_str s @ replicate k NUL) = c_str s"
proof (cases k)
  case 0
  then show ?thesis by (simp add: c_str_idem)
next
  case (Suc j)
  have "takeWhile (\<lambda>c. c \<noteq> NUL) (takeWhile (\<lambda>c. c \<noteq> NUL) s @ NUL # replicate j NUL) =
        takeWhile (\<lambda>c. c \<noteq> NUL) (takeWhile (\<lambda>c. c \<noteq> NUL) s)"
    by (rule takeWhile_tail) simp
  with Suc show ?thesis
    by (simp add: c_str_def)
qed

lemma strcpy_into_zeroed:
  assumes "strlen s < n"
  shows "strcpy (replicate n NUL) s = c_str s @ replicate (n - strlen s) NUL"
proof -
  from assms have "n - strlen s = Suc (n - (strlen s + 1))"
    by simp
  then have "replicate (n - strlen s) NUL = NUL # replicate (n - (strlen s + 1)) NUL"
    by simp
  then show ?thesis
    by (simp add: strcpy_def strlen_def)
qed

lemma SUN_LEN_padded:
  "SUN_LEN \<lparr>sun_family = f, sun_path = c_str s @ replicate k NUL\<rparr> = of_nat (2 + strlen s)"
  by (simp add: SUN_LEN_def strlen_def c_str_padded)

lemma bind_unix_encodes:
  assumes "strlen path < sizeof_sun_path"
  shows "eco_socket_bind_unix r fd path =
        eco_socket_bind_common r (c_int fd)
          (SA_un \<lparr>sun_family = AF_UNIX,
                  sun_path = c_str path @ replicate (sizeof_sun_path - strlen path) NUL\<rparr>)
          (of_nat (2 + strlen path))"
  using assms by (simp add: eco_socket_bind_unix_def strcpy_into_zeroed SUN_LEN_padded)

lemma connect_unix_encodes:
  assumes "strlen path < sizeof_sun_path"
  shows "eco_socket_connect_unix r fd path =
        eco_socket_connect_common r (c_int fd)
          (SA_un \<lparr>sun_family = AF_UNIX,
                  sun_path = c_str path @ replicate (sizeof_sun_path - strlen path) NUL\<rparr>)
          (of_nat (2 + strlen path))"
  using assms by (simp add: eco_socket_connect_unix_def strcpy_into_zeroed SUN_LEN_padded)

lemma strlen_replicate: "c \<noteq> NUL \<Longrightarrow> strlen (replicate n c) = n"
  by (simp add: strlen_def c_str_def)

lemma bind_unix_too_long:
  "sizeof_sun_path \<le> strlen path \<Longrightarrow>
   eco_socket_bind_unix r fd path = ([], Inl (ArgError 2 ''path too long''))"
  by (simp add: eco_socket_bind_unix_def)

lemma connect_unix_too_long:
  "sizeof_sun_path \<le> strlen path \<Longrightarrow>
   eco_socket_connect_unix r fd path = ([], Inl (ArgError 2 ''path too long''))"
  by (simp add: eco_socket_connect_unix_def)

text \<open>
  C7. Bind and connect measure a UNIX path with \<^verbatim>\<open>strlen\<close>, the number of bytes before
  its first NUL, and not by its length. For a path without a NUL the two agree: a path of
  107 bytes is encoded and handed to the system call, a path of 108 bytes raises the
  argument error \<^verbatim>\<open>path too long\<close> and no system call is issued. A path of 108 bytes
  whose second byte is NUL passes the check, and bind and connect issue their call for the
  path of one byte that precedes the NUL. Send_to on a UNIX path measures the same path by
  its length and raises the argument error.
\<close>

theorem unix_path_limit_is_measured_by_strlen:
  "eco_socket_bind_unix r fd (replicate 107 (CHR ''a'')) =
     eco_socket_bind_common r (c_int fd)
       (SA_un \<lparr>sun_family = AF_UNIX, sun_path = replicate 107 (CHR ''a'') @ [NUL]\<rparr>) 109
   \<and> eco_socket_connect_unix r' fd (replicate 107 (CHR ''a'')) =
     eco_socket_connect_common r' (c_int fd)
       (SA_un \<lparr>sun_family = AF_UNIX, sun_path = replicate 107 (CHR ''a'') @ [NUL]\<rparr>) 109
   \<and> eco_socket_bind_unix r fd (replicate 108 (CHR ''a'')) = ([], Inl (ArgError 2 ''path too long''))
   \<and> eco_socket_connect_unix r' fd (replicate 108 (CHR ''a'')) = ([], Inl (ArgError 2 ''path too long''))
   \<and> length (CHR ''a'' # NUL # replicate 106 (CHR ''a'')) = sizeof_sun_path
   \<and> eco_socket_bind_unix r fd (CHR ''a'' # NUL # replicate 106 (CHR ''a'')) =
     eco_socket_bind_common r (c_int fd)
       (SA_un \<lparr>sun_family = AF_UNIX, sun_path = CHR ''a'' # replicate 107 NUL\<rparr>) 3
   \<and> eco_socket_connect_unix r' fd (CHR ''a'' # NUL # replicate 106 (CHR ''a'')) =
     eco_socket_connect_common r' (c_int fd)
       (SA_un \<lparr>sun_family = AF_UNIX, sun_path = CHR ''a'' # replicate 107 NUL\<rparr>) 3
   \<and> eco_socket_bind_unix (Ok ()) 3 (CHR ''a'' # NUL # replicate 106 (CHR ''a'')) =
     ([SYS_bind 3 (SA_un \<lparr>sun_family = AF_UNIX, sun_path = CHR ''a'' # replicate 107 NUL\<rparr>) 3],
      Inr [LBoolean True])
   \<and> eco_socket_connect_unix (Ok ()) 3 (CHR ''a'' # NUL # replicate 106 (CHR ''a'')) =
     ([SYS_connect 3 (SA_un \<lparr>sun_family = AF_UNIX, sun_path = CHR ''a'' # replicate 107 NUL\<rparr>) 3],
      Inr [LBoolean True])
   \<and> eco_socket_sendto_unix se env fd data (CHR ''a'' # NUL # replicate 106 (CHR ''a'')) flags =
     Some ([], Inl (ArgError 2 ''path too long''))"
proof -
  let ?long = "CHR ''a'' # NUL # replicate 106 (CHR ''a'')"
  have l: "strlen (replicate 107 (CHR ''a'')) = 107" "strlen (replicate 108 (CHR ''a'')) = 108"
    by (simp_all add: strlen_replicate)
  have c: "c_str (replicate 107 (CHR ''a'')) = replicate 107 (CHR ''a'')"
    by (simp add: c_str_no_NUL)
  have cl: "c_str ?long = [CHR ''a'']" "strlen ?long = 1"
    by (simp_all add: strlen_def c_str_def)
  have pad: "replicate (108 - 107) NUL = [NUL]" "(108::nat) - 1 = 107"
    by simp_all
  have short: "strlen (replicate 107 (CHR ''a'')) < sizeof_sun_path" "strlen ?long < sizeof_sun_path"
    and long: "sizeof_sun_path \<le> strlen (replicate 108 (CHR ''a''))"
    by (simp_all add: l cl sizeof_sun_path_def)
  have b107: "eco_socket_bind_unix r fd (replicate 107 (CHR ''a'')) =
     eco_socket_bind_common r (c_int fd)
       (SA_un \<lparr>sun_family = AF_UNIX, sun_path = replicate 107 (CHR ''a'') @ [NUL]\<rparr>) 109"
    using bind_unix_encodes[OF short(1), of r fd] by (simp add: l c sizeof_sun_path_def)
  have c107: "eco_socket_connect_unix r' fd (replicate 107 (CHR ''a'')) =
     eco_socket_connect_common r' (c_int fd)
       (SA_un \<lparr>sun_family = AF_UNIX, sun_path = replicate 107 (CHR ''a'') @ [NUL]\<rparr>) 109"
    using connect_unix_encodes[OF short(1), of r' fd] by (simp add: l c sizeof_sun_path_def)
  have b108: "eco_socket_bind_unix r fd (replicate 108 (CHR ''a'')) = ([], Inl (ArgError 2 ''path too long''))"
    and c108: "eco_socket_connect_unix r' fd (replicate 108 (CHR ''a'')) = ([], Inl (ArgError 2 ''path too long''))"
    using long by (rule bind_unix_too_long connect_unix_too_long)+
  have len: "length ?long = sizeof_sun_path"
    by (simp add: sizeof_sun_path_def)
  have bl: "\<And>r fd. eco_socket_bind_unix r fd ?long =
     eco_socket_bind_common r (c_int fd)
       (SA_un \<lparr>sun_family = AF_UNIX, sun_path = CHR ''a'' # replicate 107 NUL\<rparr>) 3"
    using bind_unix_encodes[OF short(2)] by (simp add: cl sizeof_sun_path_def)
  have col: "\<And>r fd. eco_socket_connect_unix r fd ?long =
     eco_socket_connect_common r (c_int fd)
       (SA_un \<lparr>sun_family = AF_UNIX, sun_path = CHR ''a'' # replicate 107 NUL\<rparr>) 3"
    using connect_unix_encodes[OF short(2)] by (simp add: cl sizeof_sun_path_def)
  have bk: "eco_socket_bind_unix (Ok ()) 3 ?long =
     ([SYS_bind 3 (SA_un \<lparr>sun_family = AF_UNIX, sun_path = CHR ''a'' # replicate 107 NUL\<rparr>) 3],
      Inr [LBoolean True])"
    by (simp add: bl eco_socket_bind_common_def c_int_samples)
  have ck: "eco_socket_connect_unix (Ok ()) 3 ?long =
     ([SYS_connect 3 (SA_un \<lparr>sun_family = AF_UNIX, sun_path = CHR ''a'' # replicate 107 NUL\<rparr>) 3],
      Inr [LBoolean True])"
    by (simp add: col eco_socket_connect_common_def c_int_samples)
  have st: "eco_socket_sendto_unix se env fd data ?long flags =
     Some ([], Inl (ArgError 2 ''path too long''))"
    by (simp add: eco_socket_sendto_unix_def sizeof_sun_path_def)
  from b107 c107 b108 c108 len bl col bk ck st show ?thesis
    by blast
qed

subsection \<open>Encoding and decoding addresses\<close>

lemma ntohs_htons: "ntohs (htons x) = x"
  unfolding ntohs_def htons_def
  by (rule bit_word_eqI) (auto simp: bit_simps)

lemma port_round_trip:
  "0 \<le> port \<Longrightarrow> port < 65536 \<Longrightarrow> uint (ntohs (htons (word_of_int port))) = port"
  by (simp add: ntohs_htons uint_word_of_int)

lemma pid_round_trip:
  "0 \<le> pid \<Longrightarrow> pid < 2 ^ 32 \<Longrightarrow> uint (word_of_int pid :: 32 word) = pid"
  by (simp add: uint_word_of_int)

lemma families_distinct:
  "AF_INET \<noteq> AF_NETLINK" "AF_INET \<noteq> AF_UNIX" "AF_INET6 \<noteq> AF_NETLINK" "AF_INET6 \<noteq> AF_UNIX"
  "AF_INET6 \<noteq> AF_INET" "AF_UNIX \<noteq> AF_NETLINK" "AF_NETLINK \<noteq> AF_UNIX" "AF_NETLINK \<noteq> AF_INET"
  "AF_NETLINK \<noteq> AF_INET6"
  by (simp_all add: AF_INET_def AF_INET6_def AF_UNIX_def AF_NETLINK_def)

lemma push_socket_addr_in:
  "push_socket_addr p4 p6 (SA_in \<lparr>sin_family = AF_INET, sin_port = port, sin_addr = a\<rparr>) len =
   Inr (LTable [(''family'', LInteger (uint AF_INET)), (''port'', LInteger (uint (ntohs port))),
                (''ipaddr'', LString (p4 a))])"
  by (simp add: push_socket_addr_def families_distinct)

lemma push_socket_addr_in6:
  "push_socket_addr p4 p6
     (SA_in6 \<lparr>sin6_family = AF_INET6, sin6_port = port, sin6_flowinfo = fl, sin6_addr = a,
              sin6_scope_id = sc\<rparr>) len =
   Inr (LTable [(''family'', LInteger (uint AF_INET6)), (''port'', LInteger (uint (ntohs port))),
                (''ipaddr'', LString (p6 a))])"
  by (simp add: push_socket_addr_def families_distinct)

lemma push_socket_addr_un:
  "unat (len - 2) \<le> length buf \<Longrightarrow>
   push_socket_addr p4 p6 (SA_un \<lparr>sun_family = AF_UNIX, sun_path = buf\<rparr>) len =
   Inr (LTable [(''family'', LInteger (uint AF_UNIX)), (''path'', LString (take (unat (len - 2)) buf))])"
  by (simp add: push_socket_addr_def families_distinct)

lemma push_socket_addr_nl:
  "push_socket_addr p4 p6
     (SA_nl \<lparr>nl_family = AF_NETLINK, nl_pad = pad, nl_pid = pid, nl_groups = groups\<rparr>) len =
   Inr (LTable [(''family'', LInteger (uint AF_NETLINK)), (''pid'', LInteger (uint pid))])"
  by (simp add: push_socket_addr_def families_distinct)

lemma SUN_LEN_minus_header:
  "n < sizeof_sun_path \<Longrightarrow> unat ((of_nat (2 + n) :: 32 word) - 2) = n"
  by (simp add: sizeof_sun_path_def unat_of_nat)

text \<open>
  C1, as amended. Encoding an address as \<^verbatim>\<open>bind\<close> does and decoding the structure with
  \<^verbatim>\<open>push_socket_addr\<close> gives back the family, the port and the address text of an Inet
  or Inet6 address (a port of 16 bits, the text in the form \<^verbatim>\<open>inet_ntop\<close> prints), the
  family and the whole path of a Unix address (no NUL byte, shorter than \<^verbatim>\<open>sun_path\<close>),
  and the family and the pid of a Netlink address, whatever its groups: the decoded table
  has no field for them.
\<close>

theorem address_round_trip:
  "(inet_pton4 (c_str ip) = Some a \<and> inet_ntop4 a = ip \<and> 0 \<le> port \<and> port < 65536 \<longrightarrow>
      (\<exists>addr len. fst (eco_socket_bind inet_pton4 r fd (Some ip) port) = [SYS_bind (c_int fd) addr len]
         \<and> push_socket_addr inet_ntop4 inet_ntop6 addr len =
             Inr (LTable [(''family'', LInteger (uint AF_INET)), (''port'', LInteger port),
                          (''ipaddr'', LString ip)])))
   \<and> (inet_pton6 (c_str ip6) = Some a6 \<and> inet_ntop6 a6 = ip6 \<and> 0 \<le> port \<and> port < 65536 \<longrightarrow>
      (\<exists>addr len. fst (eco_socket_bind6 inet_pton6 r fd (Some ip6) port) = [SYS_bind (c_int fd) addr len]
         \<and> push_socket_addr inet_ntop4 inet_ntop6 addr len =
             Inr (LTable [(''family'', LInteger (uint AF_INET6)), (''port'', LInteger port),
                          (''ipaddr'', LString ip6)])))
   \<and> (NUL \<notin> set path \<and> length path < sizeof_sun_path \<longrightarrow>
      (\<exists>addr len. fst (eco_socket_bind_unix r fd path) = [SYS_bind (c_int fd) addr len]
         \<and> push_socket_addr inet_ntop4 inet_ntop6 addr len =
             Inr (LTable [(''family'', LInteger (uint AF_UNIX)), (''path'', LString path)])))
   \<and> (0 \<le> pid \<and> pid < 2 ^ 32 \<longrightarrow>
      (\<exists>addr len. fst (eco_socket_bind_nl r fd groups (Some pid)) = [SYS_bind (c_int fd) addr len]
         \<and> push_socket_addr inet_ntop4 inet_ntop6 addr len =
             Inr (LTable [(''family'', LInteger (uint AF_NETLINK)), (''pid'', LInteger pid)])))"
proof (intro conjI impI)
  assume "inet_pton4 (c_str ip) = Some a \<and> inet_ntop4 a = ip \<and> 0 \<le> port \<and> port < 65536"
  then show "\<exists>addr len. fst (eco_socket_bind inet_pton4 r fd (Some ip) port) = [SYS_bind (c_int fd) addr len]
         \<and> push_socket_addr inet_ntop4 inet_ntop6 addr len =
             Inr (LTable [(''family'', LInteger (uint AF_INET)), (''port'', LInteger port),
                          (''ipaddr'', LString ip)])"
    by (simp add: eco_socket_bind_def eco_socket_bind_common_def push_socket_addr_in port_round_trip)
next
  assume "inet_pton6 (c_str ip6) = Some a6 \<and> inet_ntop6 a6 = ip6 \<and> 0 \<le> port \<and> port < 65536"
  then show "\<exists>addr len. fst (eco_socket_bind6 inet_pton6 r fd (Some ip6) port) = [SYS_bind (c_int fd) addr len]
         \<and> push_socket_addr inet_ntop4 inet_ntop6 addr len =
             Inr (LTable [(''family'', LInteger (uint AF_INET6)), (''port'', LInteger port),
                          (''ipaddr'', LString ip6)])"
    by (simp add: eco_socket_bind6_def eco_socket_bind_common_def push_socket_addr_in6 port_round_trip)
next
  assume h: "NUL \<notin> set path \<and> length path < sizeof_sun_path"
  then have c: "c_str path = path" and l: "strlen path = length path"
    by (simp_all add: c_str_no_NUL strlen_def)
  with h have short: "strlen path < sizeof_sun_path"
    by simp
  let ?buf = "path @ replicate (sizeof_sun_path - length path) NUL"
  let ?len = "of_nat (2 + length path) :: 32 word"
  from bind_unix_encodes[OF short, of r fd]
  have "fst (eco_socket_bind_unix r fd path) =
      [SYS_bind (c_int fd) (SA_un \<lparr>sun_family = AF_UNIX, sun_path = ?buf\<rparr>) ?len]"
    by (simp add: c l eco_socket_bind_common_def)
  moreover from h have n: "unat (?len - 2) = length path"
    by (intro SUN_LEN_minus_header) simp
  then have "push_socket_addr inet_ntop4 inet_ntop6 (SA_un \<lparr>sun_family = AF_UNIX, sun_path = ?buf\<rparr>) ?len =
      Inr (LTable [(''family'', LInteger (uint AF_UNIX)), (''path'', LString path)])"
    by (subst push_socket_addr_un) simp_all
  ultimately show "\<exists>addr len. fst (eco_socket_bind_unix r fd path) = [SYS_bind (c_int fd) addr len]
         \<and> push_socket_addr inet_ntop4 inet_ntop6 addr len =
             Inr (LTable [(''family'', LInteger (uint AF_UNIX)), (''path'', LString path)])"
    by blast
next
  assume "0 \<le> pid \<and> pid < 2 ^ 32"
  then show "\<exists>addr len. fst (eco_socket_bind_nl r fd groups (Some pid)) = [SYS_bind (c_int fd) addr len]
         \<and> push_socket_addr inet_ntop4 inet_ntop6 addr len =
             Inr (LTable [(''family'', LInteger (uint AF_NETLINK)), (''pid'', LInteger pid)])"
    by (simp add: eco_socket_bind_nl_def eco_socket_bind_common_def push_socket_addr_nl
        luaL_optinteger_def pid_round_trip)
qed

theorem address_round_trip_witness:
  "sample_pton4 (c_str ''127.0.0.1'') = Some 0x0100007F \<and> sample_ntop4 0x0100007F = ''127.0.0.1''
   \<and> (0::int) \<le> 8080 \<and> (8080::int) < 65536
   \<and> fst (eco_socket_bind sample_pton4 (Ok ()) 3 (Some ''127.0.0.1'') 8080) =
       [SYS_bind 3 (SA_in \<lparr>sin_family = AF_INET, sin_port = 0x901F, sin_addr = 0x0100007F\<rparr>) 16]
   \<and> push_socket_addr sample_ntop4 sample_ntop6
        (SA_in \<lparr>sin_family = AF_INET, sin_port = 0x901F, sin_addr = 0x0100007F\<rparr>) 16 =
       Inr (LTable [(''family'', LInteger 2), (''port'', LInteger 8080), (''ipaddr'', LString ''127.0.0.1'')])
   \<and> sample_pton6 (c_str ''::1'') = Some 0x01000000000000000000000000000000
   \<and> sample_ntop6 0x01000000000000000000000000000000 = ''::1''
   \<and> fst (eco_socket_bind6 sample_pton6 (Ok ()) 3 (Some ''::1'') 8080) =
       [SYS_bind 3 (SA_in6 \<lparr>sin6_family = AF_INET6, sin6_port = 0x901F, sin6_flowinfo = 0,
                             sin6_addr = 0x01000000000000000000000000000000, sin6_scope_id = 0\<rparr>) 28]
   \<and> push_socket_addr sample_ntop4 sample_ntop6
        (SA_in6 \<lparr>sin6_family = AF_INET6, sin6_port = 0x901F, sin6_flowinfo = 0,
                  sin6_addr = 0x01000000000000000000000000000000, sin6_scope_id = 0\<rparr>) 28 =
       Inr (LTable [(''family'', LInteger 10), (''port'', LInteger 8080), (''ipaddr'', LString ''::1'')])
   \<and> NUL \<notin> set ''/tmp/s'' \<and> length ''/tmp/s'' < sizeof_sun_path
   \<and> fst (eco_socket_bind_unix (Ok ()) 3 ''/tmp/s'') =
       [SYS_bind 3 (SA_un \<lparr>sun_family = AF_UNIX, sun_path = ''/tmp/s'' @ replicate 102 NUL\<rparr>) 8]
   \<and> push_socket_addr sample_ntop4 sample_ntop6
        (SA_un \<lparr>sun_family = AF_UNIX, sun_path = ''/tmp/s'' @ replicate 102 NUL\<rparr>) 8 =
       Inr (LTable [(''family'', LInteger 1), (''path'', LString ''/tmp/s'')])
   \<and> (0::int) \<le> 7 \<and> (7::int) < 2 ^ 32
   \<and> fst (eco_socket_bind_nl (Ok ()) 3 (Some 1) (Some 7)) =
       [SYS_bind 3 (SA_nl \<lparr>nl_family = AF_NETLINK, nl_pad = 0, nl_pid = 7, nl_groups = 1\<rparr>) 12]
   \<and> push_socket_addr sample_ntop4 sample_ntop6
        (SA_nl \<lparr>nl_family = AF_NETLINK, nl_pad = 0, nl_pid = 7, nl_groups = 1\<rparr>) 12 =
       Inr (LTable [(''family'', LInteger 16), (''pid'', LInteger 7)])"
proof -
  note T = address_round_trip[where ?inet_pton4.0 = sample_pton4 and ?inet_ntop4.0 = sample_ntop4
      and ?inet_pton6.0 = sample_pton6 and ?inet_ntop6.0 = sample_ntop6
      and ip = "''127.0.0.1''" and a = "0x0100007F" and port = 8080
      and ?ip6.0 = "''::1''" and ?a6.0 = "0x01000000000000000000000000000000"
      and path = "''/tmp/s''" and pid = 7 and groups = "Some 1" and r = "Ok ()" and fd = 3]
  have h4: "sample_pton4 (c_str ''127.0.0.1'') = Some 0x0100007F \<and> sample_ntop4 0x0100007F = ''127.0.0.1''
      \<and> (0::int) \<le> 8080 \<and> (8080::int) < 65536"
    by (simp add: sample_pton4_def sample_ntop4_def c_str_def)
  have h6: "sample_pton6 (c_str ''::1'') = Some 0x01000000000000000000000000000000
      \<and> sample_ntop6 0x01000000000000000000000000000000 = ''::1'' \<and> (0::int) \<le> 8080 \<and> (8080::int) < 65536"
    by (simp add: sample_pton6_def sample_ntop6_def c_str_def)
  have hu: "NUL \<notin> set ''/tmp/s'' \<and> length ''/tmp/s'' < sizeof_sun_path"
    by (simp add: sizeof_sun_path_def)
  have hn: "(0::int) \<le> 7 \<and> (7::int) < 2 ^ 32"
    by simp
  have e4: "fst (eco_socket_bind sample_pton4 (Ok ()) 3 (Some ''127.0.0.1'') 8080) =
       [SYS_bind 3 (SA_in \<lparr>sin_family = AF_INET, sin_port = 0x901F, sin_addr = 0x0100007F\<rparr>) 16]"
    by (simp add: eco_socket_bind_def eco_socket_bind_common_def sample_pton4_def c_str_def htons_def
        sizeof_sockaddr_in_def c_int_samples)
  have e6: "fst (eco_socket_bind6 sample_pton6 (Ok ()) 3 (Some ''::1'') 8080) =
       [SYS_bind 3 (SA_in6 \<lparr>sin6_family = AF_INET6, sin6_port = 0x901F, sin6_flowinfo = 0,
                             sin6_addr = 0x01000000000000000000000000000000, sin6_scope_id = 0\<rparr>) 28]"
    by (simp add: eco_socket_bind6_def eco_socket_bind_common_def sample_pton6_def c_str_def htons_def
        sizeof_sockaddr_in6_def c_int_samples)
  have "replicate 102 NUL = replicate (Suc 101) NUL"
    by simp
  then have pad: "NUL # replicate 101 NUL = replicate 102 NUL"
    by (simp only: replicate_Suc)
  have eu: "fst (eco_socket_bind_unix (Ok ()) 3 ''/tmp/s'') =
       [SYS_bind 3 (SA_un \<lparr>sun_family = AF_UNIX, sun_path = ''/tmp/s'' @ replicate 102 NUL\<rparr>) 8]"
    by (simp add: eco_socket_bind_unix_def eco_socket_bind_common_def sizeof_sun_path_def strlen_def
        strcpy_def c_str_def SUN_LEN_def pad c_int_samples)
  have en: "fst (eco_socket_bind_nl (Ok ()) 3 (Some 1) (Some 7)) =
       [SYS_bind 3 (SA_nl \<lparr>nl_family = AF_NETLINK, nl_pad = 0, nl_pid = 7, nl_groups = 1\<rparr>) 12]"
    by (simp add: eco_socket_bind_nl_def eco_socket_bind_common_def luaL_optinteger_def
        sizeof_sockaddr_nl_def c_int_samples)
  from T h4 e4 have d4: "push_socket_addr sample_ntop4 sample_ntop6
        (SA_in \<lparr>sin_family = AF_INET, sin_port = 0x901F, sin_addr = 0x0100007F\<rparr>) 16 =
       Inr (LTable [(''family'', LInteger 2), (''port'', LInteger 8080), (''ipaddr'', LString ''127.0.0.1'')])"
    by (auto simp: AF_INET_def c_int_samples)
  from T h6 e6 have d6: "push_socket_addr sample_ntop4 sample_ntop6
        (SA_in6 \<lparr>sin6_family = AF_INET6, sin6_port = 0x901F, sin6_flowinfo = 0,
                  sin6_addr = 0x01000000000000000000000000000000, sin6_scope_id = 0\<rparr>) 28 =
       Inr (LTable [(''family'', LInteger 10), (''port'', LInteger 8080), (''ipaddr'', LString ''::1'')])"
    by (auto simp: AF_INET6_def c_int_samples)
  from T hu eu have du: "push_socket_addr sample_ntop4 sample_ntop6
        (SA_un \<lparr>sun_family = AF_UNIX, sun_path = ''/tmp/s'' @ replicate 102 NUL\<rparr>) 8 =
       Inr (LTable [(''family'', LInteger 1), (''path'', LString ''/tmp/s'')])"
    by (auto simp: AF_UNIX_def c_int_samples)
  from T hn en have dn: "push_socket_addr sample_ntop4 sample_ntop6
        (SA_nl \<lparr>nl_family = AF_NETLINK, nl_pad = 0, nl_pid = 7, nl_groups = 1\<rparr>) 12 =
       Inr (LTable [(''family'', LInteger 16), (''pid'', LInteger 7)])"
    by (auto simp: AF_NETLINK_def c_int_samples)
  from h4 h6 hu hn e4 e6 eu en d4 d6 du dn show ?thesis
    by blast
qed

text \<open>
  C1 as stated fails for Netlink: two addresses that differ in their groups are encoded
  differently and decode to one and the same table, which holds the family and the pid only.
\<close>

theorem netlink_groups_lost_counterexample:
  "fst (eco_socket_bind_nl (Ok ()) 3 (Some 1) (Some 7)) =
     [SYS_bind 3 (SA_nl \<lparr>nl_family = AF_NETLINK, nl_pad = 0, nl_pid = 7, nl_groups = 1\<rparr>)
        sizeof_sockaddr_nl]
   \<and> push_socket_addr sample_ntop4 sample_ntop6
        (SA_nl \<lparr>nl_family = AF_NETLINK, nl_pad = 0, nl_pid = 7, nl_groups = 1\<rparr>) sizeof_sockaddr_nl =
      Inr (LTable [(''family'', LInteger 16), (''pid'', LInteger 7)])
   \<and> fst (eco_socket_bind_nl (Ok ()) 3 (Some 2) (Some 7)) =
     [SYS_bind 3 (SA_nl \<lparr>nl_family = AF_NETLINK, nl_pad = 0, nl_pid = 7, nl_groups = 2\<rparr>)
        sizeof_sockaddr_nl]
   \<and> push_socket_addr sample_ntop4 sample_ntop6
        (SA_nl \<lparr>nl_family = AF_NETLINK, nl_pad = 0, nl_pid = 7, nl_groups = 2\<rparr>) sizeof_sockaddr_nl =
      Inr (LTable [(''family'', LInteger 16), (''pid'', LInteger 7)])"
  by (simp add: eco_socket_bind_nl_def eco_socket_bind_common_def push_socket_addr_def
      luaL_optinteger_def AF_NETLINK_def AF_UNIX_def AF_INET_def AF_INET6_def c_int_samples)

subsection \<open>Option names\<close>

lemma sock_opt_scan_None:
  "c_str name \<notin> c_str ` fst ` set tbl \<Longrightarrow> sock_opt_scan tbl name = None"
  by (induction tbl) (auto simp: strcmp_def)

lemma sock_opt_scan_Some:
  "sock_opt_scan tbl name = Some func \<Longrightarrow> c_str name \<in> c_str ` fst ` set tbl"
  by (induction tbl) (auto simp: strcmp_def split: if_splits)

lemma optget_names: "c_str ` fst ` set optget = set (map fst optget)"
  by (simp add: optget_def c_str_def)

lemma optset_names: "c_str ` fst ` set optset = set (map fst optset)"
  by (simp add: optset_def c_str_def)

text \<open>
  C8, as amended. An option name is compared with the names of the table as a C string,
  byte for byte up to its first NUL. A name whose C string is in no entry of the table is
  rejected by option lookup and by option assignment with the argument error
  \<^verbatim>\<open>unsupported option '...'\<close> that quotes at most 35 bytes of the name, and no system
  call is issued; \<^verbatim>\<open>REUSEADDR\<close> is rejected, \<^verbatim>\<open>reuseaddr\<close> reaches its handler. A name
  that continues after a NUL is taken for the name before the NUL: \<^verbatim>\<open>reuseaddr\<close>
  followed by a NUL and any bytes reaches the handler of \<^verbatim>\<open>reuseaddr\<close>.
\<close>

theorem unknown_option_rejected:
  "(c_str name \<notin> set (map fst optget) \<longrightarrow>
      eco_socket_getoption strerror r fd name =
        ([], Inl (ArgError 2 (''unsupported option '' @ [CHR 0x27] @ take 35 (c_str name) @ [CHR 0x27]))))
   \<and> (c_str name \<notin> set (map fst optset) \<longrightarrow>
      eco_socket_setoption strerror r' fd name arg3 =
        ([], Inl (ArgError 2 (''unsupported option '' @ [CHR 0x27] @ take 35 (c_str name) @ [CHR 0x27]))))
   \<and> eco_socket_getoption strerror r fd ''REUSEADDR'' =
        ([], Inl (ArgError 2 (''unsupported option '' @ [CHR 0x27] @ ''REUSEADDR'' @ [CHR 0x27])))
   \<and> eco_socket_setoption strerror r' fd ''REUSEADDR'' arg3 =
        ([], Inl (ArgError 2 (''unsupported option '' @ [CHR 0x27] @ ''REUSEADDR'' @ [CHR 0x27])))
   \<and> eco_socket_getoption strerror r fd ''reuseaddr'' = opt_get_reuseaddr strerror r (c_int fd)
   \<and> eco_socket_setoption strerror r' fd ''reuseaddr'' arg3 =
        opt_set_reuseaddr strerror r' (c_int fd) arg3
   \<and> eco_socket_getoption strerror r fd (''reuseaddr'' @ NUL # rest) =
        opt_get_reuseaddr strerror r (c_int fd)
   \<and> eco_socket_setoption strerror r' fd (''reuseaddr'' @ NUL # rest) arg3 =
        opt_set_reuseaddr strerror r' (c_int fd) arg3"
proof (intro conjI impI)
  assume "c_str name \<notin> set (map fst optget)"
  then have "sock_opt_scan optget name = None"
    by (intro sock_opt_scan_None) (simp add: optget_names)
  then show "eco_socket_getoption strerror r fd name =
        ([], Inl (ArgError 2 (''unsupported option '' @ [CHR 0x27] @ take 35 (c_str name) @ [CHR 0x27])))"
    by (simp add: eco_socket_getoption_def unsupported_option_msg_def)
next
  assume "c_str name \<notin> set (map fst optset)"
  then have "sock_opt_scan optset name = None"
    by (intro sock_opt_scan_None) (simp add: optset_names)
  then show "eco_socket_setoption strerror r' fd name arg3 =
        ([], Inl (ArgError 2 (''unsupported option '' @ [CHR 0x27] @ take 35 (c_str name) @ [CHR 0x27])))"
    by (simp add: eco_socket_setoption_def unsupported_option_msg_def)
next
  show "eco_socket_getoption strerror r fd ''REUSEADDR'' =
        ([], Inl (ArgError 2 (''unsupported option '' @ [CHR 0x27] @ ''REUSEADDR'' @ [CHR 0x27])))"
    by (simp add: eco_socket_getoption_def unsupported_option_msg_def optget_def strcmp_def c_str_def)
  show "eco_socket_setoption strerror r' fd ''REUSEADDR'' arg3 =
        ([], Inl (ArgError 2 (''unsupported option '' @ [CHR 0x27] @ ''REUSEADDR'' @ [CHR 0x27])))"
    by (simp add: eco_socket_setoption_def unsupported_option_msg_def optset_def strcmp_def c_str_def)
  show "eco_socket_getoption strerror r fd ''reuseaddr'' = opt_get_reuseaddr strerror r (c_int fd)"
    by (simp add: eco_socket_getoption_def optget_def strcmp_def c_str_def)
  show "eco_socket_setoption strerror r' fd ''reuseaddr'' arg3 =
        opt_set_reuseaddr strerror r' (c_int fd) arg3"
    by (simp add: eco_socket_setoption_def optset_def strcmp_def c_str_def)
  show "eco_socket_getoption strerror r fd (''reuseaddr'' @ NUL # rest) =
        opt_get_reuseaddr strerror r (c_int fd)"
    by (simp add: eco_socket_getoption_def optget_def strcmp_def c_str_def)
  show "eco_socket_setoption strerror r' fd (''reuseaddr'' @ NUL # rest) arg3 =
        opt_set_reuseaddr strerror r' (c_int fd) arg3"
    by (simp add: eco_socket_setoption_def optset_def strcmp_def c_str_def)
qed

theorem unknown_option_rejected_witness:
  "c_str ''a_socket_option_whose_name_is_much_too_long'' \<notin> set (map fst optget)
   \<and> eco_socket_getoption strerror_linux (Ok 1) 3 ''a_socket_option_whose_name_is_much_too_long'' =
       ([], Inl (ArgError 2
          (''unsupported option '' @ [CHR 0x27] @ ''a_socket_option_whose_name_is_much_'' @ [CHR 0x27])))
   \<and> c_str ''a_socket_option_whose_name_is_much_too_long'' \<notin> set (map fst optset)
   \<and> eco_socket_setoption strerror_linux (Ok ()) 3 ''a_socket_option_whose_name_is_much_too_long''
        (LBoolean True) =
       ([], Inl (ArgError 2
          (''unsupported option '' @ [CHR 0x27] @ ''a_socket_option_whose_name_is_much_'' @ [CHR 0x27])))"
proof -
  have c: "c_str ''a_socket_option_whose_name_is_much_too_long'' =
      ''a_socket_option_whose_name_is_much_too_long''"
    by (simp add: c_str_def)
  have g: "''a_socket_option_whose_name_is_much_too_long'' \<notin> set (map fst optget)"
    by (simp add: optget_def)
  have s: "''a_socket_option_whose_name_is_much_too_long'' \<notin> set (map fst optset)"
    by (simp add: optset_def)
  from unknown_option_rejected[of "''a_socket_option_whose_name_is_much_too_long''" strerror_linux
      "Ok 1" 3 "Ok ()" "LBoolean True"] g s
  show ?thesis
    unfolding c by simp
qed

text \<open>
  C8 as stated fails: \<^verbatim>\<open>reuseaddr\<close> followed by a NUL and \<^verbatim>\<open>x\<close> is a name of eleven
  bytes that is in neither table, and option lookup and option assignment accept it and
  issue their system call for \<^verbatim>\<open>SO_REUSEADDR\<close>.
\<close>

theorem option_name_cut_at_NUL_counterexample:
  "''reuseaddr'' @ [NUL, CHR ''x''] \<notin> set (map fst optget)
   \<and> eco_socket_getoption strerror_linux (Ok 1) 3 (''reuseaddr'' @ [NUL, CHR ''x'']) =
       ([SYS_getsockopt 3 1 2], Inr [LBoolean True])
   \<and> ''reuseaddr'' @ [NUL, CHR ''x''] \<notin> set (map fst optset)
   \<and> eco_socket_setoption strerror_linux (Ok ()) 3 (''reuseaddr'' @ [NUL, CHR ''x'']) (LBoolean True) =
       ([SYS_setsockopt 3 1 2 (Val_int 1)], Inr [LBoolean True])"
  by (simp add: eco_socket_getoption_def eco_socket_setoption_def optget_def optset_def strcmp_def
      c_str_def opt_get_reuseaddr_def opt_getboolean_def opt_set_reuseaddr_def opt_setboolean_def
      opt_set_def SOL_SOCKET_def SO_REUSEADDR_def c_int_def)

subsection \<open>Receive buffers\<close>

lemma size_t_of_lua_Integer:
  assumes "1 \<le> n" and "n < 2 ^ 63"
  shows "unat (word_of_int n :: 64 word) = nat n" and "(word_of_int n :: 64 word) \<noteq> 0"
proof -
  from assms have u: "uint (word_of_int n :: 64 word) = n"
    by (simp add: uint_word_of_int)
  then show "unat (word_of_int n :: 64 word) = nat n"
    by (simp add: unat_eq_nat_uint)
  from u assms(1) show "(word_of_int n :: 64 word) \<noteq> 0"
    by auto
qed

lemma recv_zero:
  "eco_socket_recv se malloc_ok env fd 0 flags = Some ([], Inl (ArgError 2 ''must be greater than 0''))"
  by (simp add: eco_socket_recv_def)

lemma recvfrom_zero:
  "eco_socket_recvfrom se p4 p6 malloc_ok env fd 0 flags =
   Some ([], Inl (ArgError 2 ''must be greater than 0''))"
  by (simp add: eco_socket_recvfrom_def)

lemma recv_reads:
  assumes "1 \<le> max_length" and "max_length < 2 ^ 63" and "malloc_ok (nat max_length)"
    and "interrupted env m" and "env m = Ok (ret, buf)"
  shows "eco_socket_recv se malloc_ok env fd max_length flags =
         Some (replicate (Suc m)
                 (SYS_recv (c_int fd) (nat max_length) (c_int (luaL_optinteger flags 0))),
               if ret \<le> nat max_length then Inr [LString (take ret buf)] else Inl OutOfBounds)"
proof -
  note sz = size_t_of_lua_Integer[OF assms(1,2)]
  from assms(3) have ok: "malloc_ok (unat (word_of_int max_length :: 64 word))"
    by (simp add: sz)
  from assms(4) sz(2) ok
  have "eco_socket_recv se malloc_ok env fd max_length flags =
         Some (replicate (Suc m)
                 (SYS_recv (c_int fd) (unat (word_of_int max_length :: 64 word))
                    (c_int (luaL_optinteger flags 0))),
               case env m of
                 Failed errno \<Rightarrow> Inr [LNil, LString (se errno)]
               | Ok (ret, buf) \<Rightarrow>
                   if ret \<le> unat (word_of_int max_length :: 64 word)
                   then Inr [LString (take ret buf)] else Inl OutOfBounds)"
    by (rule recv_outcome)
  with assms(5) show ?thesis
    by (simp add: sz)
qed

lemma recvfrom_reads:
  assumes "1 \<le> max_length" and "max_length < 2 ^ 63" and "malloc_ok (nat max_length)"
    and "interrupted env m" and "env m = Ok (ret, buf, addr, addrlen)"
  shows "eco_socket_recvfrom se p4 p6 malloc_ok env fd max_length flags =
         Some (replicate (Suc m)
                 (SYS_recvfrom (c_int fd) (nat max_length) (c_int (luaL_optinteger flags 0))),
               if ret \<le> nat max_length then
                 (if addrlen \<noteq> 0 then
                    (case push_socket_addr p4 p6 addr addrlen of
                       Inl e \<Rightarrow> Inl e
                     | Inr t \<Rightarrow> Inr [LString (take ret buf), t])
                  else Inr [LString (take ret buf)])
               else Inl OutOfBounds)"
proof -
  note sz = size_t_of_lua_Integer[OF assms(1,2)]
  from assms(3) have ok: "malloc_ok (unat (word_of_int max_length :: 64 word))"
    by (simp add: sz)
  from assms(4) sz(2) ok
  have "eco_socket_recvfrom se p4 p6 malloc_ok env fd max_length flags =
         Some (replicate (Suc m)
                 (SYS_recvfrom (c_int fd) (unat (word_of_int max_length :: 64 word))
                    (c_int (luaL_optinteger flags 0))),
               case env m of
                 Failed errno \<Rightarrow> Inr [LNil, LString (se errno)]
               | Ok (ret, buf, addr, addrlen) \<Rightarrow>
                   if ret \<le> unat (word_of_int max_length :: 64 word) then
                     (if addrlen \<noteq> 0 then
                        (case push_socket_addr p4 p6 addr addrlen of
                           Inl e \<Rightarrow> Inl e
                         | Inr t \<Rightarrow> Inr [LString (take ret buf), t])
                      else Inr [LString (take ret buf)])
                   else Inl OutOfBounds)"
    by (rule recvfrom_outcome)
  with assms(5) show ?thesis
    by (simp add: sz)
qed

text \<open>
  C9. Receive and receive_from with a maximum length of 0 raise the argument error
  \<^verbatim>\<open>must be greater than 0\<close> and issue no system call. With a maximum length of 1 or
  more (and the allocation granted) every call is given a buffer of exactly that size. When
  the kernel reports \<open>ret\<close> bytes, no more than the buffer holds, the string returned is
  the first \<open>ret\<close> bytes of the buffer. When it reports more than the buffer holds, as
  it does under \<^verbatim>\<open>MSG_TRUNC\<close> for a datagram longer than the buffer,
  \<^verbatim>\<open>lua_pushlstring\<close> is told to read \<open>ret\<close> bytes of a buffer of fewer bytes: a
  receive of at most 4 bytes that is answered 10 reads past the end of its buffer.
\<close>

theorem receive_reads_the_reported_length:
  "eco_socket_recv se malloc_ok env fd 0 flags = Some ([], Inl (ArgError 2 ''must be greater than 0''))
   \<and> eco_socket_recvfrom se p4 p6 malloc_ok env' fd 0 flags =
       Some ([], Inl (ArgError 2 ''must be greater than 0''))
   \<and> (1 \<le> max_length \<and> max_length < 2 ^ 63 \<and> malloc_ok (nat max_length)
        \<and> interrupted env m \<and> env m = Ok (ret, buf)
        \<and> ret \<le> nat max_length \<and> length buf = nat max_length \<longrightarrow>
      eco_socket_recv se malloc_ok env fd max_length flags =
        Some (replicate (Suc m)
                (SYS_recv (c_int fd) (nat max_length) (c_int (luaL_optinteger flags 0))),
              Inr [LString (take ret buf)])
      \<and> length (take ret buf) = ret)
   \<and> (1 \<le> max_length \<and> max_length < 2 ^ 63 \<and> malloc_ok (nat max_length)
        \<and> interrupted env m \<and> env m = Ok (ret, buf) \<and> nat max_length < ret \<longrightarrow>
      eco_socket_recv se malloc_ok env fd max_length flags =
        Some (replicate (Suc m)
                (SYS_recv (c_int fd) (nat max_length) (c_int (luaL_optinteger flags 0))),
              Inl OutOfBounds))
   \<and> (1 \<le> max_length \<and> max_length < 2 ^ 63 \<and> malloc_ok (nat max_length)
        \<and> interrupted env' m \<and> env' m = Ok (ret, buf, addr, addrlen)
        \<and> ret \<le> nat max_length \<and> length buf = nat max_length
        \<and> (addrlen = 0 \<or> push_socket_addr p4 p6 addr addrlen = Inr t) \<longrightarrow>
      eco_socket_recvfrom se p4 p6 malloc_ok env' fd max_length flags =
        Some (replicate (Suc m)
                (SYS_recvfrom (c_int fd) (nat max_length) (c_int (luaL_optinteger flags 0))),
              Inr (LString (take ret buf) # (if addrlen = 0 then [] else [t])))
      \<and> length (take ret buf) = ret)
   \<and> (1 \<le> max_length \<and> max_length < 2 ^ 63 \<and> malloc_ok (nat max_length)
        \<and> interrupted env' m \<and> env' m = Ok (ret, buf, addr, addrlen) \<and> nat max_length < ret \<longrightarrow>
      eco_socket_recvfrom se p4 p6 malloc_ok env' fd max_length flags =
        Some (replicate (Suc m)
                (SYS_recvfrom (c_int fd) (nat max_length) (c_int (luaL_optinteger flags 0))),
              Inl OutOfBounds))
   \<and> eco_socket_recv strerror_linux malloc_always (always (Ok (10, ''0123''))) 3 4 (Some MSG_TRUNC) =
       Some ([SYS_recv 3 4 32], Inl OutOfBounds)
   \<and> eco_socket_recvfrom strerror_linux sample_ntop4 sample_ntop6 malloc_always
        (always (Ok (10, ''0123'', SA_generic AF_UNSPEC, 0))) 3 4 (Some MSG_TRUNC) =
       Some ([SYS_recvfrom 3 4 32], Inl OutOfBounds)"
proof (intro conjI impI)
  show "eco_socket_recv se malloc_ok env fd 0 flags = Some ([], Inl (ArgError 2 ''must be greater than 0''))"
    by (rule recv_zero)
  show "eco_socket_recvfrom se p4 p6 malloc_ok env' fd 0 flags =
       Some ([], Inl (ArgError 2 ''must be greater than 0''))"
    by (rule recvfrom_zero)
  show "eco_socket_recv strerror_linux malloc_always (always (Ok (10, ''0123''))) 3 4 (Some MSG_TRUNC) =
       Some ([SYS_recv 3 4 32], Inl OutOfBounds)"
    by (simp add: eco_socket_recv_def eco_socket_recv_again.simps always_def malloc_always_def
        luaL_optinteger_def MSG_TRUNC_def c_int_samples)
  show "eco_socket_recvfrom strerror_linux sample_ntop4 sample_ntop6 malloc_always
        (always (Ok (10, ''0123'', SA_generic AF_UNSPEC, 0))) 3 4 (Some MSG_TRUNC) =
       Some ([SYS_recvfrom 3 4 32], Inl OutOfBounds)"
    by (simp add: eco_socket_recvfrom_def eco_socket_recvfrom_again.simps always_def malloc_always_def
        luaL_optinteger_def MSG_TRUNC_def c_int_samples)
next
  assume h: "1 \<le> max_length \<and> max_length < 2 ^ 63 \<and> malloc_ok (nat max_length)
        \<and> interrupted env m \<and> env m = Ok (ret, buf)
        \<and> ret \<le> nat max_length \<and> length buf = nat max_length"
  then have "eco_socket_recv se malloc_ok env fd max_length flags =
         Some (replicate (Suc m)
                 (SYS_recv (c_int fd) (nat max_length) (c_int (luaL_optinteger flags 0))),
               if ret \<le> nat max_length then Inr [LString (take ret buf)] else Inl OutOfBounds)"
    by (intro recv_reads) simp_all
  with h show "eco_socket_recv se malloc_ok env fd max_length flags =
        Some (replicate (Suc m)
                (SYS_recv (c_int fd) (nat max_length) (c_int (luaL_optinteger flags 0))),
              Inr [LString (take ret buf)])"
    by simp
  from h show "length (take ret buf) = ret"
    by simp
next
  assume h: "1 \<le> max_length \<and> max_length < 2 ^ 63 \<and> malloc_ok (nat max_length)
        \<and> interrupted env m \<and> env m = Ok (ret, buf) \<and> nat max_length < ret"
  then have "eco_socket_recv se malloc_ok env fd max_length flags =
         Some (replicate (Suc m)
                 (SYS_recv (c_int fd) (nat max_length) (c_int (luaL_optinteger flags 0))),
               if ret \<le> nat max_length then Inr [LString (take ret buf)] else Inl OutOfBounds)"
    by (intro recv_reads) simp_all
  with h show "eco_socket_recv se malloc_ok env fd max_length flags =
        Some (replicate (Suc m)
                (SYS_recv (c_int fd) (nat max_length) (c_int (luaL_optinteger flags 0))),
              Inl OutOfBounds)"
    by simp
next
  assume h: "1 \<le> max_length \<and> max_length < 2 ^ 63 \<and> malloc_ok (nat max_length)
        \<and> interrupted env' m \<and> env' m = Ok (ret, buf, addr, addrlen)
        \<and> ret \<le> nat max_length \<and> length buf = nat max_length
        \<and> (addrlen = 0 \<or> push_socket_addr p4 p6 addr addrlen = Inr t)"
  then have "eco_socket_recvfrom se p4 p6 malloc_ok env' fd max_length flags =
         Some (replicate (Suc m)
                 (SYS_recvfrom (c_int fd) (nat max_length) (c_int (luaL_optinteger flags 0))),
               if ret \<le> nat max_length then
                 (if addrlen \<noteq> 0 then
                    (case push_socket_addr p4 p6 addr addrlen of
                       Inl e \<Rightarrow> Inl e
                     | Inr t \<Rightarrow> Inr [LString (take ret buf), t])
                  else Inr [LString (take ret buf)])
               else Inl OutOfBounds)"
    by (intro recvfrom_reads) simp_all
  with h show "eco_socket_recvfrom se p4 p6 malloc_ok env' fd max_length flags =
        Some (replicate (Suc m)
                (SYS_recvfrom (c_int fd) (nat max_length) (c_int (luaL_optinteger flags 0))),
              Inr (LString (take ret buf) # (if addrlen = 0 then [] else [t])))"
    by auto
  from h show "length (take ret buf) = ret"
    by simp
next
  assume h: "1 \<le> max_length \<and> max_length < 2 ^ 63 \<and> malloc_ok (nat max_length)
        \<and> interrupted env' m \<and> env' m = Ok (ret, buf, addr, addrlen) \<and> nat max_length < ret"
  then have "eco_socket_recvfrom se p4 p6 malloc_ok env' fd max_length flags =
         Some (replicate (Suc m)
                 (SYS_recvfrom (c_int fd) (nat max_length) (c_int (luaL_optinteger flags 0))),
               if ret \<le> nat max_length then
                 (if addrlen \<noteq> 0 then
                    (case push_socket_addr p4 p6 addr addrlen of
                       Inl e \<Rightarrow> Inl e
                     | Inr t \<Rightarrow> Inr [LString (take ret buf), t])
                  else Inr [LString (take ret buf)])
               else Inl OutOfBounds)"
    by (intro recvfrom_reads) simp_all
  with h show "eco_socket_recvfrom se p4 p6 malloc_ok env' fd max_length flags =
        Some (replicate (Suc m)
                (SYS_recvfrom (c_int fd) (nat max_length) (c_int (luaL_optinteger flags 0))),
              Inl OutOfBounds)"
    by simp
qed

theorem receive_reads_the_reported_length_witness:
  "(1::int) \<le> 4 \<and> (4::int) < 2 ^ 63 \<and> malloc_always (nat 4)
   \<and> interrupted (interrupted_twice (Ok (2, ''pong'')) :: nat \<Rightarrow> (nat \<times> string) sysres) 2
   \<and> interrupted_twice (Ok (2::nat, ''pong'')) 2 = Ok (2, ''pong'')
   \<and> (2::nat) \<le> nat 4 \<and> length ''pong'' = nat 4
   \<and> eco_socket_recv strerror_linux malloc_always (interrupted_twice (Ok (2, ''pong''))) 3 4 None =
       Some ([SYS_recv 3 4 0, SYS_recv 3 4 0, SYS_recv 3 4 0], Inr [LString ''po''])
   \<and> length ''po'' = 2
   \<and> interrupted (interrupted_twice (Ok (2, ''pong'', SA_generic AF_UNSPEC, 2))
        :: nat \<Rightarrow> (nat \<times> string \<times> sockaddr \<times> 32 word) sysres) 2
   \<and> interrupted_twice (Ok (2::nat, ''pong'', SA_generic AF_UNSPEC, 2::32 word)) 2 =
       Ok (2, ''pong'', SA_generic AF_UNSPEC, 2)
   \<and> push_socket_addr sample_ntop4 sample_ntop6 (SA_generic AF_UNSPEC) 2 =
       Inr (LTable [(''family'', LInteger 0)])
   \<and> eco_socket_recvfrom strerror_linux sample_ntop4 sample_ntop6 malloc_always
        (interrupted_twice (Ok (2, ''pong'', SA_generic AF_UNSPEC, 2))) 3 4 None =
       Some ([SYS_recvfrom 3 4 0, SYS_recvfrom 3 4 0, SYS_recvfrom 3 4 0],
             Inr [LString ''po'', LTable [(''family'', LInteger 0)]])
   \<and> interrupted (interrupted_twice (Ok (10, ''0123'')) :: nat \<Rightarrow> (nat \<times> string) sysres) 2
   \<and> interrupted_twice (Ok (10::nat, ''0123'')) 2 = Ok (10, ''0123'')
   \<and> nat 4 < (10::nat)
   \<and> eco_socket_recv strerror_linux malloc_always (interrupted_twice (Ok (10, ''0123''))) 3 4
        (Some MSG_TRUNC) =
       Some ([SYS_recv 3 4 32, SYS_recv 3 4 32, SYS_recv 3 4 32], Inl OutOfBounds)
   \<and> interrupted (interrupted_twice (Ok (10, ''0123'', SA_generic AF_UNSPEC, 2))
        :: nat \<Rightarrow> (nat \<times> string \<times> sockaddr \<times> 32 word) sysres) 2
   \<and> interrupted_twice (Ok (10::nat, ''0123'', SA_generic AF_UNSPEC, 2::32 word)) 2 =
       Ok (10, ''0123'', SA_generic AF_UNSPEC, 2)
   \<and> eco_socket_recvfrom strerror_linux sample_ntop4 sample_ntop6 malloc_always
        (interrupted_twice (Ok (10, ''0123'', SA_generic AF_UNSPEC, 2))) 3 4 (Some MSG_TRUNC) =
       Some ([SYS_recvfrom 3 4 32, SYS_recvfrom 3 4 32, SYS_recvfrom 3 4 32], Inl OutOfBounds)"
proof -
  have h0: "(1::int) \<le> 4 \<and> (4::int) < 2 ^ 63 \<and> malloc_always (nat 4)"
    by (simp add: malloc_always_def)
  have ir: "interrupted (interrupted_twice (Ok (2, ''pong'')) :: nat \<Rightarrow> (nat \<times> string) sysres) 2"
    and ifr: "interrupted (interrupted_twice (Ok (2, ''pong'', SA_generic AF_UNSPEC, 2))
        :: nat \<Rightarrow> (nat \<times> string \<times> sockaddr \<times> 32 word) sysres) 2"
    and ir': "interrupted (interrupted_twice (Ok (10, ''0123'')) :: nat \<Rightarrow> (nat \<times> string) sysres) 2"
    and ifr': "interrupted (interrupted_twice (Ok (10, ''0123'', SA_generic AF_UNSPEC, 2))
        :: nat \<Rightarrow> (nat \<times> string \<times> sockaddr \<times> 32 word) sysres) 2"
    by (simp_all add: interrupted_twice_interrupted)
  have vr: "interrupted_twice (Ok (2::nat, ''pong'')) 2 = Ok (2, ''pong'')"
    and vf: "interrupted_twice (Ok (2::nat, ''pong'', SA_generic AF_UNSPEC, 2::32 word)) 2 =
       Ok (2, ''pong'', SA_generic AF_UNSPEC, 2)"
    and vr': "interrupted_twice (Ok (10::nat, ''0123'')) 2 = Ok (10, ''0123'')"
    and vf': "interrupted_twice (Ok (10::nat, ''0123'', SA_generic AF_UNSPEC, 2::32 word)) 2 =
       Ok (10, ''0123'', SA_generic AF_UNSPEC, 2)"
    by (simp_all add: interrupted_twice_def)
  have hb: "(2::nat) \<le> nat 4 \<and> length ''pong'' = nat 4" and hb': "nat 4 < (10::nat)"
    by simp_all
  have len: "length ''po'' = 2"
    by simp
  have opt: "luaL_optinteger None 0 = 0" "luaL_optinteger (Some MSG_TRUNC) 0 = 32"
    by (simp_all add: luaL_optinteger_def MSG_TRUNC_def)
  note dec = push_socket_addr_unspec[of sample_ntop4 sample_ntop6 2]
  note T = receive_reads_the_reported_length[where max_length = 4 and malloc_ok = malloc_always and m = 2
      and env = "interrupted_twice (Ok (2, ''pong''))" and ret = 2 and buf = "''pong''"
      and env' = "interrupted_twice (Ok (2, ''pong'', SA_generic AF_UNSPEC, 2))"
      and addr = "SA_generic AF_UNSPEC" and addrlen = 2 and ?p4.0 = sample_ntop4 and ?p6.0 = sample_ntop6
      and t = "LTable [(''family'', LInteger 0)]" and se = strerror_linux and fd = 3 and flags = None]
  note U = receive_reads_the_reported_length[where max_length = 4 and malloc_ok = malloc_always and m = 2
      and env = "interrupted_twice (Ok (10, ''0123''))" and ret = 10 and buf = "''0123''"
      and env' = "interrupted_twice (Ok (10, ''0123'', SA_generic AF_UNSPEC, 2))"
      and addr = "SA_generic AF_UNSPEC" and addrlen = 2 and ?p4.0 = sample_ntop4 and ?p6.0 = sample_ntop6
      and se = strerror_linux and fd = 3 and flags = "Some MSG_TRUNC"]
  from T h0 ir vr hb
  have er: "eco_socket_recv strerror_linux malloc_always (interrupted_twice (Ok (2, ''pong''))) 3 4 None =
       Some ([SYS_recv 3 4 0, SYS_recv 3 4 0, SYS_recv 3 4 0], Inr [LString ''po''])"
    by (simp add: opt c_int_samples replicate_three)
  from T h0 ifr vf hb dec
  have ef: "eco_socket_recvfrom strerror_linux sample_ntop4 sample_ntop6 malloc_always
        (interrupted_twice (Ok (2, ''pong'', SA_generic AF_UNSPEC, 2))) 3 4 None =
       Some ([SYS_recvfrom 3 4 0, SYS_recvfrom 3 4 0, SYS_recvfrom 3 4 0],
             Inr [LString ''po'', LTable [(''family'', LInteger 0)]])"
    by (simp add: opt c_int_samples replicate_three)
  from U h0 ir' vr' hb'
  have er': "eco_socket_recv strerror_linux malloc_always (interrupted_twice (Ok (10, ''0123''))) 3 4
        (Some MSG_TRUNC) =
       Some ([SYS_recv 3 4 32, SYS_recv 3 4 32, SYS_recv 3 4 32], Inl OutOfBounds)"
    by (simp add: opt c_int_samples replicate_three)
  from U h0 ifr' vf' hb'
  have ef': "eco_socket_recvfrom strerror_linux sample_ntop4 sample_ntop6 malloc_always
        (interrupted_twice (Ok (10, ''0123'', SA_generic AF_UNSPEC, 2))) 3 4 (Some MSG_TRUNC) =
       Some ([SYS_recvfrom 3 4 32, SYS_recvfrom 3 4 32, SYS_recvfrom 3 4 32], Inl OutOfBounds)"
    by (simp add: opt c_int_samples replicate_three)
  from h0 ir vr hb er len ifr vf dec ef ir' vr' hb' er' ifr' vf' ef' show ?thesis
    by blast
qed

end
